theory Spec2Isabelle
  imports Complex_Main
begin

section \<open>JavaScript values used by the code\<close>

text \<open>
  \<open>process.env\<close> maps a variable name to a string, or to \<open>undefined\<close> (here \<open>None\<close>).
  A string-or-undefined value is truthy when it is defined and not the empty string;
  \<open>a || b\<close> yields \<open>a\<close> when \<open>a\<close> is truthy and \<open>b\<close> otherwise.
\<close>

type_synonym env = "string \<Rightarrow> string option"

definition truthy :: "string option \<Rightarrow> bool" where
  "truthy v = (case v of None \<Rightarrow> False | Some s \<Rightarrow> s \<noteq> [])"

definition js_or :: "string option \<Rightarrow> string option \<Rightarrow> string option" where
  "js_or a b = (if truthy a then a else b)"

definition or_else :: "string option \<Rightarrow> string \<Rightarrow> string" where
  "or_else a d = (case a of None \<Rightarrow> d | Some s \<Rightarrow> if s = [] then d else s)"

text \<open>\<open>Array.prototype.join\<close> on an array of strings.\<close>

fun join :: "string \<Rightarrow> string list \<Rightarrow> string" where
  "join sep [] = []"
| "join sep [x] = x"
| "join sep (x # y # ys) = x @ sep @ join sep (y # ys)"

text \<open>
  Characters are code units in the range 0..255. \<open>String.prototype.trim\<close> strips
  white space and line terminators from both ends; in this range these are TAB, LF, VT,
  FF, CR, SPACE and NBSP.
\<close>

definition is_js_space :: "char \<Rightarrow> bool" where
  "is_js_space c = (c = CHR 0x09 \<or> c = CHR 0x0A \<or> c = CHR 0x0B \<or> c = CHR 0x0C
                    \<or> c = CHR 0x0D \<or> c = CHR 0x20 \<or> c = CHR 0xA0)"

definition trim :: "string \<Rightarrow> string" where
  "trim s = rev (dropWhile is_js_space (rev (dropWhile is_js_space s)))"

section \<open>types.ts\<close>

record MessageClassificationRequest =
  message :: "string option"
  userId :: "string option"
  metadata :: "(string \<times> string) list option"

text \<open>
  \<open>Partial<LLMProviderConfig>\<close>: every field may be absent.
\<close>

record LLMProviderConfig =
  provider :: "string option"
  model :: "string option"
  apiKey :: "string option"
  baseURL :: "string option"

text \<open>
  Thrown values. \<open>Error name message\<close> is an \<open>Error\<close> instance of a library or of the
  language (\<open>SyntaxError\<close>, \<open>ZodError\<close>, ...); \<open>LLMProviderError\<close> and
  \<open>ClassificationError\<close> are the two subclasses of types.ts with their constructor
  arguments; \<open>Thrown\<close> is a thrown value that is not an \<open>Error\<close> instance.
\<close>

datatype js_error =
    Error string string
  | LLMProviderError string string "js_error option"
  | ClassificationError string MessageClassificationRequest "js_error option"
  | Thrown string

fun instanceof_Error :: "js_error \<Rightarrow> bool" where
  "instanceof_Error (Thrown _) = False"
| "instanceof_Error _ = True"

fun error_message :: "js_error \<Rightarrow> string" where
  "error_message (Error _ m) = m"
| "error_message (LLMProviderError m _ _) = m"
| "error_message (ClassificationError m _ _) = m"
| "error_message (Thrown _) = []"

fun is_ClassificationError :: "js_error \<Rightarrow> bool" where
  "is_ClassificationError (ClassificationError _ _ _) = True"
| "is_ClassificationError _ = False"

fun is_LLMProviderError :: "js_error \<Rightarrow> bool" where
  "is_LLMProviderError (LLMProviderError _ _ _) = True"
| "is_LLMProviderError _ = False"

record MessageClassificationResult =
  message :: string
  isOffensive :: bool
  confidence :: "real option"
  reasoning :: "string option"
  provider :: string
  model :: string
  timestamp :: nat

section \<open>llm-config.ts: the provider manager\<close>

datatype provider_instance =
    OpenAI string "string option"
  | OpenAICompatible string string string

type_synonym provider_registry = "(string \<times> provider_instance) list"

datatype LanguageModel = LanguageModel provider_instance string

record LLMProviderManager =
  registry :: provider_registry

text \<open>
  \<open>createRegistry\<close>: one entry per provider whose environment variable is truthy, in
  the order of the source; throws when no entry was made.
\<close>

definition createRegistry :: "env \<Rightarrow> js_error + provider_registry" where
  "createRegistry e =
    (let providers0 = [];
         providers1 = (if truthy (e ''OPENAI_API_KEY'')
                       then providers0 @ [(''openai'',
                              OpenAI (or_else (e ''OPENAI_API_KEY'') []) (e ''OPENAI_BASE_URL''))]
                       else providers0);
         providers2 = (if truthy (e ''LMSTUDIO_BASE_URL'')
                       then providers1 @ [(''lmstudio'',
                              OpenAICompatible ''lmstudio''
                                (or_else (e ''LMSTUDIO_API_KEY'') ''not-needed'')
                                (or_else (e ''LMSTUDIO_BASE_URL'') ''http://localhost:1234/v1''))]
                       else providers1)
     in if length providers2 = 0
        then Inl (LLMProviderError
               ''No LLM providers configured. Please check your environment variables.''
               ''none'' None)
        else Inr providers2)"

definition getInstance :: "env \<Rightarrow> js_error + LLMProviderManager" where
  "getInstance e = (case createRegistry e of
                      Inl err \<Rightarrow> Inl err
                    | Inr r \<Rightarrow> Inr \<lparr>registry = r\<rparr>)"

text \<open>
  The registry of the \<open>ai\<close> package, by its contract: \<open>languageModel id\<close> splits
  \<open>id\<close> at the first \<open>:\<close> into a provider name and a model name, throws
  \<open>NoSuchModelError\<close> when there is no separator and \<open>NoSuchProviderError\<close> when the
  provider name is not registered, and otherwise returns that provider's handle for the
  model name.
\<close>

definition registry_languageModel :: "provider_registry \<Rightarrow> string \<Rightarrow> js_error + LanguageModel" where
  "registry_languageModel r ident =
    (let providerId = takeWhile (\<lambda>c. c \<noteq> CHR '':'') ident;
         rest = dropWhile (\<lambda>c. c \<noteq> CHR '':'') ident
     in if rest = [] then Inl (Error ''AI_NoSuchModelError'' (''Invalid languageModel id: '' @ ident))
        else (case map_of r providerId of
                None \<Rightarrow> Inl (Error ''AI_NoSuchProviderError'' (''No such provider: '' @ providerId))
              | Some p \<Rightarrow> Inr (LanguageModel p (tl rest))))"

definition getModel :: "LLMProviderManager \<Rightarrow> env \<Rightarrow> LLMProviderConfig option \<Rightarrow> js_error + LanguageModel" where
  "getModel this e config =
    (let provider = or_else (js_or (case config of None \<Rightarrow> None | Some c \<Rightarrow> LLMProviderConfig.provider c)
                                   (e ''LLM_PROVIDER'')) ''openai'';
         model = or_else (js_or (case config of None \<Rightarrow> None | Some c \<Rightarrow> LLMProviderConfig.model c)
                                (e ''DEFAULT_MODEL'')) ''gpt-4o-mini''
     in case registry_languageModel (registry this) (provider @ '':'' @ model) of
          Inr m \<Rightarrow> Inr m
        | Inl err \<Rightarrow> Inl (LLMProviderError
                           (''Failed to get model '' @ model @ '' from provider '' @ provider)
                           provider (Some err)))"

definition getAvailableProviders :: "env \<Rightarrow> string list" where
  "getAvailableProviders e =
    (let providers0 = [];
         providers1 = (if truthy (e ''OPENAI_API_KEY'') then providers0 @ [''openai''] else providers0);
         providers2 = (if truthy (e ''LMSTUDIO_BASE_URL'') then providers1 @ [''lmstudio''] else providers1)
     in providers2)"

record validation =
  isValid :: bool
  errors :: "string list"

definition validateConfiguration :: "env \<Rightarrow> validation" where
  \<open>validateConfiguration e =
    (let errors0 = [];
         availableProviders = getAvailableProviders e;
         errors1 = (if length availableProviders = 0
                    then errors0 @ [''No LLM providers are configured''] else errors0);
         selectedProvider = e ''LLM_PROVIDER'';
         errors2 = (if truthy selectedProvider \<and> or_else selectedProvider [] \<notin> set availableProviders
                    then errors1 @ [''Selected provider '' @ [CHR 0x27] @ or_else selectedProvider []
                                    @ [CHR 0x27] @ '' is not available. Available providers: ''
                                    @ join '', '' availableProviders]
                    else errors1);
         errors3 = (if selectedProvider = Some ''openai'' \<and> \<not> truthy (e ''OPENAI_API_KEY'')
                    then errors2 @ [''OpenAI provider selected but OPENAI_API_KEY is not set'']
                    else errors2);
         errors4 = (if selectedProvider = Some ''lmstudio'' \<and> \<not> truthy (e ''LMSTUDIO_BASE_URL'')
                    then errors3 @ [''LM Studio provider selected but LMSTUDIO_BASE_URL is not set'']
                    else errors3)
     in \<lparr>isValid = (length errors4 = 0), errors = errors4\<rparr>)\<close>

section \<open>JSON.parse\<close>

text \<open>
  \<open>JSON.parse\<close> is the language's own function; it is modelled as a scanner and a
  pushdown parser for the JSON grammar. Numbers are exact reals (the rounding to a double
  is not modelled), a unicode escape above 255 is outside the character range of the
  model and is refused, and the text of a \<open>SyntaxError\<close> is a fixed string.
\<close>

datatype json =
    JNull
  | JBool bool
  | JNumber real
  | JString string
  | JArray "json list"
  | JObject "(string \<times> json) list"

datatype token =
    TLBrace | TRBrace | TLBracket | TRBracket | TColon | TComma
  | TString string | TNumber real | TTrue | TFalse | TNull

definition is_digit :: "char \<Rightarrow> bool" where
  "is_digit c = (48 \<le> (of_char c :: nat) \<and> (of_char c :: nat) \<le> 57)"

definition is_json_space :: "char \<Rightarrow> bool" where
  "is_json_space c = (c = CHR 0x20 \<or> c = CHR 0x09 \<or> c = CHR 0x0A \<or> c = CHR 0x0D)"

definition is_number_char :: "char \<Rightarrow> bool" where
  "is_number_char c = (is_digit c \<or> c = CHR ''-'' \<or> c = CHR ''+'' \<or> c = CHR ''.''
                       \<or> c = CHR ''e'' \<or> c = CHR ''E'')"

definition is_word_char :: "char \<Rightarrow> bool" where
  "is_word_char c = (97 \<le> (of_char c :: nat) \<and> (of_char c :: nat) \<le> 122)"

definition hex_digit :: "char \<Rightarrow> nat option" where
  "hex_digit c =
    (let n = (of_char c :: nat)
     in if 48 \<le> n \<and> n \<le> 57 then Some (n - 48)
        else if 97 \<le> n \<and> n \<le> 102 then Some (n - 87)
        else if 65 \<le> n \<and> n \<le> 70 then Some (n - 55)
        else None)"

definition digits_value :: "string \<Rightarrow> nat" where
  "digits_value ds = foldl (\<lambda>n c. 10 * n + ((of_char c :: nat) - 48)) 0 ds"

fun starts_with_char :: "(char \<Rightarrow> bool) \<Rightarrow> string \<Rightarrow> bool" where
  "starts_with_char P [] = False"
| "starts_with_char P (c # cs) = P c"

definition number_value :: "string \<Rightarrow> real option" where
  "number_value s =
    (let neg = starts_with_char (\<lambda>c. c = CHR ''-'') s;
         s1 = (if neg then tl s else s);
         ip = takeWhile is_digit s1;
         s2 = dropWhile is_digit s1;
         has_frac = starts_with_char (\<lambda>c. c = CHR ''.'') s2;
         fp = (if has_frac then takeWhile is_digit (tl s2) else []);
         s3 = (if has_frac then dropWhile is_digit (tl s2) else s2);
         has_exp = starts_with_char (\<lambda>c. c = CHR ''e'' \<or> c = CHR ''E'') s3;
         s4 = (if has_exp then tl s3 else s3);
         eneg = (has_exp \<and> starts_with_char (\<lambda>c. c = CHR ''-'') s4);
         esigned = (has_exp \<and> starts_with_char (\<lambda>c. c = CHR ''-'' \<or> c = CHR ''+'') s4);
         s5 = (if esigned then tl s4 else s4);
         ep = (if has_exp then takeWhile is_digit s5 else []);
         s6 = (if has_exp then dropWhile is_digit s5 else s5)
     in if ip = [] \<or> (1 < length ip \<and> starts_with_char (\<lambda>c. c = CHR ''0'') ip)
           \<or> (has_frac \<and> fp = []) \<or> (has_exp \<and> ep = []) \<or> s6 \<noteq> []
        then None
        else (let mantissa = real (digits_value (ip @ fp)) / 10 ^ length fp;
                  scaled = (if eneg then mantissa / 10 ^ digits_value ep
                            else mantissa * 10 ^ digits_value ep)
              in Some (if neg then - scaled else scaled)))"

datatype lex_state =
    LStart
  | LString string
  | LEscape string
  | LUnicode string "nat list"
  | LNumber string
  | LWord string

definition word_token :: "string \<Rightarrow> token option" where
  "word_token w = (if w = ''true'' then Some TTrue
                   else if w = ''false'' then Some TFalse
                   else if w = ''null'' then Some TNull
                   else None)"

definition escape_char :: "char \<Rightarrow> char option" where
  "escape_char c =
    (if c = CHR 0x22 then Some (CHR 0x22)
     else if c = CHR 0x5C then Some (CHR 0x5C)
     else if c = CHR ''/'' then Some (CHR ''/'')
     else if c = CHR ''b'' then Some (CHR 0x08)
     else if c = CHR ''f'' then Some (CHR 0x0C)
     else if c = CHR ''n'' then Some (CHR 0x0A)
     else if c = CHR ''r'' then Some (CHR 0x0D)
     else if c = CHR ''t'' then Some (CHR 0x09)
     else None)"

definition start_step :: "char \<Rightarrow> (lex_state \<times> token list) option" where
  "start_step c =
    (if is_json_space c then Some (LStart, [])
     else if c = CHR ''{'' then Some (LStart, [TLBrace])
     else if c = CHR ''}'' then Some (LStart, [TRBrace])
     else if c = CHR ''['' then Some (LStart, [TLBracket])
     else if c = CHR '']'' then Some (LStart, [TRBracket])
     else if c = CHR '':'' then Some (LStart, [TColon])
     else if c = CHR '','' then Some (LStart, [TComma])
     else if c = CHR 0x22 then Some (LString [], [])
     else if c = CHR ''-'' \<or> is_digit c then Some (LNumber [c], [])
     else if is_word_char c then Some (LWord [c], [])
     else None)"

fun after_token :: "token option \<Rightarrow> char \<Rightarrow> (lex_state \<times> token list) option" where
  "after_token None c = None"
| "after_token (Some t) c =
    (case start_step c of None \<Rightarrow> None | Some (s, ts) \<Rightarrow> Some (s, t # ts))"

fun lex_step :: "lex_state \<Rightarrow> char \<Rightarrow> (lex_state \<times> token list) option" where
  "lex_step LStart c = start_step c"
| "lex_step (LString acc) c =
    (if c = CHR 0x22 then Some (LStart, [TString (rev acc)])
     else if c = CHR 0x5C then Some (LEscape acc, [])
     else if (of_char c :: nat) < 32 then None
     else Some (LString (c # acc), []))"
| "lex_step (LEscape acc) c =
    (if c = CHR ''u'' then Some (LUnicode acc [], [])
     else (case escape_char c of
             None \<Rightarrow> None
           | Some d \<Rightarrow> Some (LString (d # acc), [])))"
| "lex_step (LUnicode acc hs) c =
    (case hex_digit c of
       None \<Rightarrow> None
     | Some h \<Rightarrow>
         (if length hs < 3 then Some (LUnicode acc (hs @ [h]), [])
          else (let n = foldl (\<lambda>a d. 16 * a + d) 0 (hs @ [h])
                in if n < 256 then Some (LString (char_of n # acc), []) else None)))"
| "lex_step (LNumber acc) c =
    (if is_number_char c then Some (LNumber (c # acc), [])
     else after_token (map_option TNumber (number_value (rev acc))) c)"
| "lex_step (LWord acc) c =
    (if is_word_char c then Some (LWord (c # acc), [])
     else after_token (word_token (rev acc)) c)"

fun lex_end :: "lex_state \<Rightarrow> token list option" where
  "lex_end LStart = Some []"
| "lex_end (LNumber acc) = map_option (\<lambda>x. [TNumber x]) (number_value (rev acc))"
| "lex_end (LWord acc) = map_option (\<lambda>t. [t]) (word_token (rev acc))"
| "lex_end _ = None"

fun lex :: "lex_state \<Rightarrow> string \<Rightarrow> token list option" where
  "lex s [] = lex_end s"
| "lex s (c # cs) =
    (case lex_step s c of
       None \<Rightarrow> None
     | Some (s', ts) \<Rightarrow> map_option (\<lambda>rest. ts @ rest) (lex s' cs))"

datatype container =
    CArray "json list"
  | CObject "(string \<times> json) list" "string option"

datatype parse_mode = MValue | MArrayFirst | MObjectFirst | MKey | MColon | MAfter | MDone json

fun deliver :: "json \<Rightarrow> container list \<Rightarrow> (parse_mode \<times> container list) option" where
  "deliver v [] = Some (MDone v, [])"
| "deliver v (CArray xs # st) = Some (MAfter, CArray (v # xs) # st)"
| "deliver v (CObject kvs (Some k) # st) = Some (MAfter, CObject ((k, v) # kvs) None # st)"
| "deliver v (CObject kvs None # st) = None"

fun wants_value :: "parse_mode \<Rightarrow> bool" where
  "wants_value MValue = True"
| "wants_value MArrayFirst = True"
| "wants_value _ = False"

fun parse_step :: "parse_mode \<Rightarrow> container list \<Rightarrow> token \<Rightarrow> (parse_mode \<times> container list) option" where
  "parse_step m st TNull = (if wants_value m then deliver JNull st else None)"
| "parse_step m st TTrue = (if wants_value m then deliver (JBool True) st else None)"
| "parse_step m st TFalse = (if wants_value m then deliver (JBool False) st else None)"
| "parse_step m st (TNumber x) = (if wants_value m then deliver (JNumber x) st else None)"
| "parse_step m st (TString s) =
    (if wants_value m then deliver (JString s) st
     else (case (m, st) of
             (MObjectFirst, CObject kvs None # st') \<Rightarrow> Some (MColon, CObject kvs (Some s) # st')
           | (MKey, CObject kvs None # st') \<Rightarrow> Some (MColon, CObject kvs (Some s) # st')
           | _ \<Rightarrow> None))"
| "parse_step m st TLBracket = (if wants_value m then Some (MArrayFirst, CArray [] # st) else None)"
| "parse_step m st TLBrace = (if wants_value m then Some (MObjectFirst, CObject [] None # st) else None)"
| "parse_step m st TRBracket =
    (case (m, st) of
       (MArrayFirst, CArray xs # st') \<Rightarrow> deliver (JArray (rev xs)) st'
     | (MAfter, CArray xs # st') \<Rightarrow> deliver (JArray (rev xs)) st'
     | _ \<Rightarrow> None)"
| "parse_step m st TRBrace =
    (case (m, st) of
       (MObjectFirst, CObject kvs None # st') \<Rightarrow> deliver (JObject (rev kvs)) st'
     | (MAfter, CObject kvs None # st') \<Rightarrow> deliver (JObject (rev kvs)) st'
     | _ \<Rightarrow> None)"
| "parse_step m st TComma =
    (case (m, st) of
       (MAfter, CArray xs # st') \<Rightarrow> Some (MValue, st)
     | (MAfter, CObject kvs None # st') \<Rightarrow> Some (MKey, st)
     | _ \<Rightarrow> None)"
| "parse_step m st TColon = (case m of MColon \<Rightarrow> Some (MValue, st) | _ \<Rightarrow> None)"

fun parse_tokens :: "parse_mode \<Rightarrow> container list \<Rightarrow> token list \<Rightarrow> json option" where
  "parse_tokens m st [] = (case m of MDone v \<Rightarrow> Some v | _ \<Rightarrow> None)"
| "parse_tokens m st (t # ts) =
    (case parse_step m st t of
       None \<Rightarrow> None
     | Some (m', st') \<Rightarrow> parse_tokens m' st' ts)"

definition JSON_parse :: "string \<Rightarrow> js_error + json" where
  "JSON_parse s =
    (case lex LStart s of
       None \<Rightarrow> Inl (Error ''SyntaxError'' ''Unexpected token in JSON'')
     | Some ts \<Rightarrow>
         (case parse_tokens MValue [] ts of
            None \<Rightarrow> Inl (Error ''SyntaxError'' ''Unexpected token in JSON'')
          | Some v \<Rightarrow> Inr v))"

text \<open>Property lookup on a parsed object: of two equal keys the later one wins.\<close>

definition object_get :: "(string \<times> json) list \<Rightarrow> string \<Rightarrow> json option" where
  "object_get kvs k = map_of (rev kvs) k"

section \<open>llm-config.ts: the classification schema and the prompts\<close>

text \<open>
  The value \<open>classificationSchema.parse\<close> returns: the zod object schema keeps the four
  declared keys and strips every other one.
\<close>

record Classification =
  isOffensive :: bool
  confidence :: real
  reasoning :: string
  categories :: "string list option"

text \<open>
  A zod issue is its code and the key it is about. The message of a \<open>ZodError\<close> lists
  the issues (zod prints them as JSON; the model prints code and key).
\<close>

datatype zod_issue = ZodIssue string string

fun issue_text :: "zod_issue \<Rightarrow> string" where
  "issue_text (ZodIssue code key) = code @ '' at '' @ key"

definition ZodError :: "zod_issue list \<Rightarrow> js_error" where
  "ZodError issues = Error ''ZodError'' (join ''; '' (map issue_text issues))"

definition z_boolean :: "string \<Rightarrow> json option \<Rightarrow> zod_issue list + bool" where
  "z_boolean key v = (case v of
                        Some (JBool b) \<Rightarrow> Inr b
                      | _ \<Rightarrow> Inl [ZodIssue ''invalid_type'' key])"

definition z_number_min_max :: "real \<Rightarrow> real \<Rightarrow> string \<Rightarrow> json option \<Rightarrow> zod_issue list + real" where
  "z_number_min_max lo hi key v =
    (case v of
       Some (JNumber x) \<Rightarrow>
         (if x < lo then Inl [ZodIssue ''too_small'' key]
          else if hi < x then Inl [ZodIssue ''too_big'' key]
          else Inr x)
     | _ \<Rightarrow> Inl [ZodIssue ''invalid_type'' key])"

definition z_string :: "string \<Rightarrow> json option \<Rightarrow> zod_issue list + string" where
  "z_string key v = (case v of
                       Some (JString s) \<Rightarrow> Inr s
                     | _ \<Rightarrow> Inl [ZodIssue ''invalid_type'' key])"

fun z_string_elements :: "string \<Rightarrow> json list \<Rightarrow> zod_issue list + string list" where
  "z_string_elements key [] = Inr []"
| "z_string_elements key (x # xs) =
    (case (z_string key (Some x), z_string_elements key xs) of
       (Inr s, Inr ss) \<Rightarrow> Inr (s # ss)
     | (Inl i, Inr ss) \<Rightarrow> Inl i
     | (Inr s, Inl iss) \<Rightarrow> Inl iss
     | (Inl i, Inl iss) \<Rightarrow> Inl (i @ iss))"

definition z_array_of_string_optional :: "string \<Rightarrow> json option \<Rightarrow> zod_issue list + string list option" where
  "z_array_of_string_optional key v =
    (case v of
       None \<Rightarrow> Inr None
     | Some (JArray xs) \<Rightarrow> (case z_string_elements key xs of
                               Inl iss \<Rightarrow> Inl iss
                             | Inr ss \<Rightarrow> Inr (Some ss))
     | Some _ \<Rightarrow> Inl [ZodIssue ''invalid_type'' key])"

fun issues_of :: "zod_issue list + 'a \<Rightarrow> zod_issue list" where
  "issues_of (Inl iss) = iss"
| "issues_of (Inr _) = []"

definition classificationSchema_parse :: "json \<Rightarrow> js_error + Classification" where
  "classificationSchema_parse data =
    (case data of
       JObject kvs \<Rightarrow>
         (let f1 = z_boolean ''isOffensive'' (object_get kvs ''isOffensive'');
              f2 = z_number_min_max 0 1 ''confidence'' (object_get kvs ''confidence'');
              f3 = z_string ''reasoning'' (object_get kvs ''reasoning'');
              f4 = z_array_of_string_optional ''categories'' (object_get kvs ''categories'')
          in case (f1, f2, f3, f4) of
               (Inr b, Inr c, Inr r, Inr cs) \<Rightarrow>
                 Inr \<lparr>Classification.isOffensive = b, Classification.confidence = c,
                      Classification.reasoning = r, Classification.categories = cs\<rparr>
             | _ \<Rightarrow> Inl (ZodError (issues_of f1 @ issues_of f2 @ issues_of f3 @ issues_of f4)))
     | _ \<Rightarrow> Inl (ZodError [ZodIssue ''invalid_type'' []]))"

record ClassificationPromptConfig =
  systemPrompt :: string
  userPromptTemplate :: string

definition CLASSIFICATION_PROMPTS :: ClassificationPromptConfig where
  \<open>CLASSIFICATION_PROMPTS =
    \<lparr>systemPrompt = join [CHR 0x0A]
       [''You are an expert content moderator. Your task is to classify whether a message contains offensive content.'',
        [],
        ''Offensive content includes:'',
        ''- Hate speech or discriminatory language based on race, gender, religion, etc.'',
        ''- Harassment, bullying, or personal threats'',
        ''- Explicit sexual content or graphic descriptions'',
        ''- Graphic violence, gore, or disturbing content'',
        ''- Spam, scams, or malicious content'',
        ''- Content that promotes illegal activities or self-harm'',
        [],
        ''Analyze the message carefully and provide:'',
        ''1. A boolean classification (offensive or not)'',
        ''2. Your confidence level (0.0 to 1.0)'',
        ''3. Clear reasoning for your decision'',
        ''4. Optional categories if the content is offensive'',
        [],
        ''Be accurate, consistent, and err on the side of caution for borderline cases.''],
     userPromptTemplate = ''Classify this message for offensive content: "{message}"''\<rparr>\<close>

section \<open>String and RegExp functions of the language\<close>

fun starts_with :: "string \<Rightarrow> string \<Rightarrow> bool" where
  "starts_with [] s = True"
| "starts_with (p # ps) [] = False"
| "starts_with (p # ps) (c # cs) = (p = c \<and> starts_with ps cs)"

text \<open>\<open>String.prototype.includes\<close>.\<close>

fun js_includes :: "string \<Rightarrow> string \<Rightarrow> bool" where
  "js_includes [] sub = (sub = [])"
| "js_includes (c # cs) sub = (starts_with sub (c # cs) \<or> js_includes cs sub)"

text \<open>
  \<open>String.prototype.replace\<close> with a string pattern replaces the first occurrence,
  and expands the dollar patterns of the replacement: a doubled dollar sign, dollar
  ampersand (the match), dollar backquote (the text before the match) and dollar quote
  (the text after it). A string pattern has no captures, so every other dollar sign
  stays as it is.
\<close>

fun find_first :: "string \<Rightarrow> string \<Rightarrow> string \<Rightarrow> (string \<times> string) option" where
  "find_first pat pre [] = (if pat = [] then Some (rev pre, []) else None)"
| "find_first pat pre (c # cs) =
    (if starts_with pat (c # cs) then Some (rev pre, drop (length pat) (c # cs))
     else find_first pat (c # pre) cs)"

fun GetSubstitution :: "string \<Rightarrow> string \<Rightarrow> string \<Rightarrow> string \<Rightarrow> string" where
  "GetSubstitution matched pre post [] = []"
| "GetSubstitution matched pre post [c] = [c]"
| "GetSubstitution matched pre post (c # d # r) =
    (if c = CHR ''$'' \<and> d = CHR ''$'' then CHR ''$'' # GetSubstitution matched pre post r
     else if c = CHR ''$'' \<and> d = CHR ''&'' then matched @ GetSubstitution matched pre post r
     else if c = CHR ''$'' \<and> d = CHR 0x60 then pre @ GetSubstitution matched pre post r
     else if c = CHR ''$'' \<and> d = CHR 0x27 then post @ GetSubstitution matched pre post r
     else c # GetSubstitution matched pre post (d # r))"

definition js_replace :: "string \<Rightarrow> string \<Rightarrow> string \<Rightarrow> string" where
  "js_replace s pat replacement =
    (case find_first pat [] s of
       None \<Rightarrow> s
     | Some (pre, post) \<Rightarrow> pre @ GetSubstitution pat pre post replacement @ post)"

text \<open>
  The match of the regular expression of the activity, an opening brace, any characters
  (greedy, so as many as possible) and a closing brace, at its leftmost position.
  \<open>greedy_to_brace\<close> matches the part after the opening brace at the start of its
  argument, preferring the longest match; \<open>match_braces\<close> tries the start positions
  from the left and returns element 0 of the match.
\<close>

fun greedy_to_brace :: "string \<Rightarrow> string option" where
  "greedy_to_brace [] = None"
| "greedy_to_brace (c # cs) =
    (case greedy_to_brace cs of
       Some m \<Rightarrow> Some (c # m)
     | None \<Rightarrow> if c = CHR ''}'' then Some [c] else None)"

fun match_braces :: "string \<Rightarrow> string option" where
  "match_braces [] = None"
| "match_braces (c # cs) =
    (if c = CHR ''{''
     then (case greedy_to_brace cs of
             Some m \<Rightarrow> Some (c # m)
           | None \<Rightarrow> match_braces cs)
     else match_braces cs)"

section \<open>The generation functions of the \<open>ai\<close> package\<close>

text \<open>
  An outbound call and its arguments: the model handle, the system prompt, the prompt,
  the temperature and \<open>maxOutputTokens\<close>.
\<close>

datatype llm_call =
    GenerateText LanguageModel string string real nat
  | GenerateObject LanguageModel string string real nat

text \<open>
  What an activity invocation finds around it: the environment of the process, the
  backend's answer to an outbound call (the completion text, or the raw object of the
  structured-output mode, or a thrown error), and the clock.
\<close>

record world =
  process_env :: env
  text_reply :: "llm_call \<Rightarrow> js_error + string"
  object_reply :: "llm_call \<Rightarrow> js_error + json"
  clock :: nat

definition generateText :: "world \<Rightarrow> llm_call \<Rightarrow> js_error + string" where
  "generateText w call = text_reply w call"

text \<open>
  \<open>generateObject\<close>, by its contract: the object the backend produced is validated
  against the schema passed in, and a mismatch throws \<open>NoObjectGeneratedError\<close>; the
  object returned satisfies the schema.
\<close>

definition generateObject :: "world \<Rightarrow> llm_call \<Rightarrow> (json \<Rightarrow> js_error + 'a) \<Rightarrow> js_error + 'a" where
  "generateObject w call schema =
    (case object_reply w call of
       Inl e \<Rightarrow> Inl e
     | Inr raw \<Rightarrow>
         (case schema raw of
            Inl e \<Rightarrow> Inl (Error ''AI_NoObjectGeneratedError''
                          ''No object generated: response did not match schema.'')
          | Inr obj \<Rightarrow> Inr obj))"

section \<open>activities.ts\<close>

definition try_catch :: "js_error + 'a \<Rightarrow> (js_error \<Rightarrow> js_error + 'a) \<Rightarrow> js_error + 'a" where
  "try_catch body handler = (case body of Inr v \<Rightarrow> Inr v | Inl e \<Rightarrow> handler e)"

text \<open>What an invocation did, in order: resolved the model handle, called the backend.\<close>

datatype effect = GetModel | ModelCall llm_call

definition lmstudio_format_instruction :: string where
  \<open>lmstudio_format_instruction =
    [CHR 0x0A, CHR 0x0A] @ ''Respond with ONLY a valid JSON object in this exact format: {"isOffensive": boolean, "confidence": number, "reasoning": "string"}''\<close>

text \<open>The inner \<open>try\<close> block of the LM Studio branch, and the block with its \<open>catch\<close>.\<close>

definition extract_classification :: "string \<Rightarrow> js_error + Classification" where
  "extract_classification text =
    (case match_braces text of
       Some jsonMatch \<Rightarrow>
         (case JSON_parse jsonMatch of
            Inl e \<Rightarrow> Inl e
          | Inr parsedData \<Rightarrow> classificationSchema_parse parsedData)
     | None \<Rightarrow> Inl (Error ''Error'' ''No JSON found in response''))"

definition parse_lmstudio_response ::
    "MessageClassificationRequest \<Rightarrow> string \<Rightarrow> js_error + Classification" where
  "parse_lmstudio_response request text =
    try_catch (extract_classification text)
      (\<lambda>parseError. Inl (ClassificationError
          (''Failed to parse LM Studio response: ''
             @ (if instanceof_Error parseError then error_message parseError
                else ''Unknown parsing error'')
             @ ''. Response was: '' @ text)
          request
          (if instanceof_Error parseError then Some parseError else None)))"

text \<open>
  The body of the outer \<open>try\<close> block, with the effects it performed. \<open>generation\<close>
  is the classification data the provider branch ends with (or what it threw) and the
  call it made; console output is left out.
\<close>

definition classifyMessage_body ::
    "world \<Rightarrow> LLMProviderManager \<Rightarrow> MessageClassificationRequest
      \<Rightarrow> (js_error + MessageClassificationResult) \<times> effect list" where
  "classifyMessage_body w llmProvider request =
    (if \<not> truthy (MessageClassificationRequest.message request)
        \<or> length (trim (or_else (MessageClassificationRequest.message request) [])) = 0
     then (Inl (ClassificationError ''Message cannot be empty'' request None), [])
     else
       (let msg = or_else (MessageClassificationRequest.message request) []
        in case getModel llmProvider (process_env w) None of
             Inl e \<Rightarrow> (Inl e, [GetModel])
           | Inr languageModel \<Rightarrow>
               (let provider = or_else (process_env w ''LLM_PROVIDER'') ''openai'';
                    modelName = or_else (process_env w ''DEFAULT_MODEL'') ''gpt-4o-mini'';
                    userPrompt = js_replace (userPromptTemplate CLASSIFICATION_PROMPTS)
                                   ''{message}'' msg;
                    generation =
                      (if provider = ''lmstudio''
                       then (let call = GenerateText languageModel
                                          (systemPrompt CLASSIFICATION_PROMPTS
                                             @ lmstudio_format_instruction)
                                          userPrompt (1 / 10) 300
                             in (case generateText w call of
                                   Inl e \<Rightarrow> Inl e
                                 | Inr reply \<Rightarrow> parse_lmstudio_response request reply,
                                 call))
                       else (let call = GenerateObject languageModel
                                          (systemPrompt CLASSIFICATION_PROMPTS)
                                          userPrompt (1 / 10) 300
                             in (generateObject w call classificationSchema_parse, call)))
                in (case fst generation of
                      Inl e \<Rightarrow> Inl e
                    | Inr classificationData \<Rightarrow>
                        Inr \<lparr>MessageClassificationResult.message = msg,
                             MessageClassificationResult.isOffensive =
                               Classification.isOffensive classificationData,
                             MessageClassificationResult.confidence =
                               Some (Classification.confidence classificationData),
                             MessageClassificationResult.reasoning =
                               Some (Classification.reasoning classificationData),
                             MessageClassificationResult.provider = provider,
                             MessageClassificationResult.model = modelName,
                             MessageClassificationResult.timestamp = clock w\<rparr>,
                    [GetModel, ModelCall (snd generation)]))))"

text \<open>The outer \<open>catch\<close> block.\<close>

definition classifyMessage_catch ::
    "MessageClassificationRequest \<Rightarrow> js_error \<Rightarrow> js_error + MessageClassificationResult" where
  "classifyMessage_catch request error =
    (if is_LLMProviderError error \<or> is_ClassificationError error then Inl error
     else if instanceof_Error error \<and> js_includes (error_message error) ''schema''
     then Inl (ClassificationError
                 (''LLM response validation failed: '' @ error_message error
                    @ ''. This indicates the model couldn'' @ [CHR 0x27]
                    @ ''t generate properly structured output.'')
                 request (Some error))
     else Inl (ClassificationError
                 (''Failed to classify message: ''
                    @ (if instanceof_Error error then error_message error else ''Unknown error''))
                 request
                 (if instanceof_Error error then Some error else None)))"

definition classifyMessage ::
    "world \<Rightarrow> LLMProviderManager \<Rightarrow> MessageClassificationRequest
      \<Rightarrow> (js_error + MessageClassificationResult) \<times> effect list" where
  "classifyMessage w llmProvider request =
    (case classifyMessage_body w llmProvider request of
       (r, effects) \<Rightarrow> (try_catch r (classifyMessage_catch request), effects))"

section \<open>workflows.ts\<close>

text \<open>The options passed to \<open>proxyActivities\<close>; durations in milliseconds.\<close>

record RetryPolicy =
  initialInterval :: nat
  maximumInterval :: nat
  maximumAttempts :: nat
  backoffCoefficient :: nat

record ActivityOptions =
  startToCloseTimeout :: nat
  retry :: RetryPolicy

definition activity_options :: ActivityOptions where
  "activity_options =
    \<lparr>startToCloseTimeout = 120000,
     retry = \<lparr>initialInterval = 1000, maximumInterval = 30000,
              maximumAttempts = 3, backoffCoefficient = 2\<rparr>\<rparr>"

text \<open>
  Modelled from the spec: the durable-execution engine behind \<open>proxyActivities\<close> is not
  part of the sources. By section 4.3 of the specification it runs an attempt, and on
  failure waits and retries with exponential backoff (initial interval, coefficient,
  capped interval) until the attempt budget is used up; exhausting the attempts
  surfaces the last failure unmodified. \<open>f k\<close> is what attempt \<open>k\<close> (counted from 1)
  ends with; \<open>run_attempts p f k n\<close> runs attempt \<open>k\<close> with \<open>n\<close> more attempts left
  after it. A budget of 0 (no limit, in the engine) is outside the model.
\<close>

record 'a execution =
  outcome :: "js_error + 'a"
  attempts :: nat
  waits :: "nat list"

definition retry_interval :: "RetryPolicy \<Rightarrow> nat \<Rightarrow> nat" where
  "retry_interval p k =
    min (initialInterval p * backoffCoefficient p ^ (k - 1)) (maximumInterval p)"

fun run_attempts :: "RetryPolicy \<Rightarrow> (nat \<Rightarrow> js_error + 'a) \<Rightarrow> nat \<Rightarrow> nat \<Rightarrow> 'a execution" where
  "run_attempts p f k 0 = \<lparr>outcome = f k, attempts = k, waits = []\<rparr>"
| "run_attempts p f k (Suc n) =
    (case f k of
       Inr v \<Rightarrow> \<lparr>outcome = Inr v, attempts = k, waits = []\<rparr>
     | Inl e \<Rightarrow> (let r = run_attempts p f (Suc k) n
                in r\<lparr>waits := retry_interval p k # waits r\<rparr>))"

definition execute_activity :: "ActivityOptions \<Rightarrow> (nat \<Rightarrow> js_error + 'a) \<Rightarrow> 'a execution" where
  "execute_activity opts f = run_attempts (retry opts) f 1 (maximumAttempts (retry opts) - 1)"

text \<open>
  The workflows take the proxied activity as a parameter \<open>act\<close> (the outcome its promise
  settles with, after the engine's retries) and return their own outcome with the
  requests they dispatched to it. An absent argument is \<open>None\<close>.
\<close>

definition messageClassificationWorkflow ::
    "(MessageClassificationRequest \<Rightarrow> js_error + MessageClassificationResult)
      \<Rightarrow> MessageClassificationRequest option
      \<Rightarrow> (js_error + MessageClassificationResult) \<times> MessageClassificationRequest list" where
  "messageClassificationWorkflow act request =
    (case request of
       None \<Rightarrow> (Inl (Error ''Error'' ''Invalid request: message is required''), [])
     | Some r \<Rightarrow>
         (if \<not> truthy (MessageClassificationRequest.message r)
          then (Inl (Error ''Error'' ''Invalid request: message is required''), [])
          else (try_catch (act r) (\<lambda>error. Inl error), [r])))"

text \<open>
  \<open>Promise.all\<close> over the promises of the activities. \<open>outcomes ! i\<close> is what promise
  \<open>i\<close> settles with, and \<open>order\<close> lists the promises in the order in which they settle.
  A fulfilled promise stores its value in slot \<open>i\<close>, and the whole is fulfilled with
  the slots once every slot is filled; the first rejection rejects the whole, and what
  settles afterwards changes nothing. In the batch workflow \<open>act i r\<close> is what the
  activity dispatched for request \<open>i\<close> settles with; the workflow's \<open>catch\<close> rethrows
  the rejection as it is.
\<close>

datatype 'a promise = Pending "'a option list" | Fulfilled "'a list" | Rejected js_error

fun settle :: "(js_error + 'a) list \<Rightarrow> 'a promise \<Rightarrow> nat \<Rightarrow> 'a promise" where
  "settle outcomes (Pending slots) i =
    (if i < length outcomes
     then (case outcomes ! i of
             Inl e \<Rightarrow> Rejected e
           | Inr v \<Rightarrow> (case those (slots[i := Some v]) of
                         Some vs \<Rightarrow> Fulfilled vs
                       | None \<Rightarrow> Pending (slots[i := Some v])))
     else Pending slots)"
| "settle outcomes (Fulfilled vs) i = Fulfilled vs"
| "settle outcomes (Rejected e) i = Rejected e"

definition Promise_all :: "nat list \<Rightarrow> (js_error + 'a) list \<Rightarrow> 'a promise" where
  "Promise_all order outcomes =
    (if outcomes = [] then Fulfilled []
     else foldl (settle outcomes) (Pending (replicate (length outcomes) None)) order)"

definition batchMessageClassificationWorkflow ::
    "(nat \<Rightarrow> MessageClassificationRequest \<Rightarrow> js_error + MessageClassificationResult)
      \<Rightarrow> nat list \<Rightarrow> MessageClassificationRequest list option
      \<Rightarrow> MessageClassificationResult promise \<times> MessageClassificationRequest list" where
  "batchMessageClassificationWorkflow act order requests =
    (case requests of
       None \<Rightarrow> (Rejected (Error ''Error'' ''Invalid request: at least one message is required''), [])
     | Some rs \<Rightarrow>
         (if length rs = 0
          then (Rejected (Error ''Error'' ''Invalid request: at least one message is required''), [])
          else (Promise_all order (map (\<lambda>(i, r). act i r) (enumerate 0 rs)), rs)))"

section \<open>Notions used in the statements\<close>

text \<open>
  The call of the free-text branch and the call of the schema-constrained branch for a
  message, and the result the activity builds from validated classification data.
\<close>

definition free_text_call :: "LanguageModel \<Rightarrow> string \<Rightarrow> llm_call" where
  "free_text_call h m =
    GenerateText h (systemPrompt CLASSIFICATION_PROMPTS @ lmstudio_format_instruction)
      (js_replace (userPromptTemplate CLASSIFICATION_PROMPTS) ''{message}'' m) (1 / 10) 300"

definition structured_call :: "LanguageModel \<Rightarrow> string \<Rightarrow> llm_call" where
  "structured_call h m =
    GenerateObject h (systemPrompt CLASSIFICATION_PROMPTS)
      (js_replace (userPromptTemplate CLASSIFICATION_PROMPTS) ''{message}'' m) (1 / 10) 300"

definition stamped_result :: "world \<Rightarrow> string \<Rightarrow> Classification \<Rightarrow> MessageClassificationResult" where
  "stamped_result w m d =
    \<lparr>MessageClassificationResult.message = m,
     MessageClassificationResult.isOffensive = Classification.isOffensive d,
     MessageClassificationResult.confidence = Some (Classification.confidence d),
     MessageClassificationResult.reasoning = Some (Classification.reasoning d),
     MessageClassificationResult.provider = or_else (process_env w ''LLM_PROVIDER'') ''openai'',
     MessageClassificationResult.model = or_else (process_env w ''DEFAULT_MODEL'') ''gpt-4o-mini'',
     MessageClassificationResult.timestamp = clock w\<rparr>"

text \<open>
  What holds of the combined promise at every moment, relative to what the single
  promises settle with: the filled slots hold the values of their promises and some slot
  is still empty; a fulfilled promise holds the values of all promises in the order of
  the promises; a rejection is the failure of one of them. \<open>slot_filled\<close> tells whether
  promise \<open>i\<close> has been taken into account.
\<close>

fun promise_consistent :: "(js_error + 'a) list \<Rightarrow> 'a promise \<Rightarrow> bool" where
  "promise_consistent outcomes (Pending slots) =
    (length slots = length outcomes
     \<and> (\<exists>i < length slots. slots ! i = None)
     \<and> (\<forall>i < length outcomes. \<forall>v. slots ! i = Some v \<longrightarrow> outcomes ! i = Inr v))"
| "promise_consistent outcomes (Fulfilled vs) =
    (length vs = length outcomes \<and> (\<forall>i < length outcomes. outcomes ! i = Inr (vs ! i)))"
| "promise_consistent outcomes (Rejected e) = (\<exists>i < length outcomes. outcomes ! i = Inl e)"

fun slot_filled :: "'a promise \<Rightarrow> nat \<Rightarrow> bool" where
  "slot_filled (Pending slots) i = (slots ! i \<noteq> None)"
| "slot_filled (Fulfilled vs) i = True"
| "slot_filled (Rejected e) i = True"

section \<open>Concrete environments, requests and backends\<close>

definition env_lmstudio_only :: env where
  "env_lmstudio_only = map_of [(''LMSTUDIO_BASE_URL'', ''http://localhost:1234/v1'')]"

definition manager_lmstudio_only :: LLMProviderManager where
  "manager_lmstudio_only =
    \<lparr>registry = [(''lmstudio'', OpenAICompatible ''lmstudio'' ''not-needed'' ''http://localhost:1234/v1'')]\<rparr>"

definition env_openai :: env where
  "env_openai = map_of [(''OPENAI_API_KEY'', ''sk-test'')]"

definition manager_openai :: LLMProviderManager where
  "manager_openai = \<lparr>registry = [(''openai'', OpenAI ''sk-test'' None)]\<rparr>"

definition object_ok :: json where
  "object_ok = JObject [(''isOffensive'', JBool False), (''confidence'', JNumber (9 / 10)),
                        (''reasoning'', JString ''friendly greeting'')]"

definition world_openai :: world where
  "world_openai = \<lparr>process_env = env_openai,
                    text_reply = (\<lambda>call. Inl (Thrown ''unused'')),
                    object_reply = (\<lambda>call. Inr object_ok),
                    clock = 1700000000000\<rparr>"

definition request_blank :: MessageClassificationRequest where
  "request_blank = \<lparr>MessageClassificationRequest.message = Some [CHR 0x20, CHR 0x09, CHR 0x0A],
                     userId = Some ''test-user-1'', metadata = None\<rparr>"

definition request_hello :: MessageClassificationRequest where
  "request_hello = \<lparr>MessageClassificationRequest.message = Some ''Hello, this is a nice and friendly message!'',
                     userId = Some ''test-user-123'', metadata = Some [(''source'', ''test'')]\<rparr>"

definition env_lmstudio :: env where
  "env_lmstudio = map_of [(''LLM_PROVIDER'', ''lmstudio''),
                          (''LMSTUDIO_BASE_URL'', ''http://localhost:1234/v1''),
                          (''DEFAULT_MODEL'', ''qwen2.5-7b-instruct'')]"

definition handle_lmstudio :: LanguageModel where
  "handle_lmstudio =
    LanguageModel (OpenAICompatible ''lmstudio'' ''not-needed'' ''http://localhost:1234/v1'')
      ''qwen2.5-7b-instruct''"

definition embedded_object :: string where
  \<open>embedded_object = ''{"isOffensive": false, "confidence": 0.9, "reasoning": "friendly greeting"}''\<close>

definition embedded_data :: Classification where
  "embedded_data = \<lparr>Classification.isOffensive = False, Classification.confidence = 9 / 10,
                     Classification.reasoning = ''friendly greeting'',
                     Classification.categories = None\<rparr>"

definition world_lmstudio :: "string \<Rightarrow> world" where
  "world_lmstudio reply = \<lparr>process_env = env_lmstudio,
                            text_reply = (\<lambda>call. Inr reply),
                            object_reply = (\<lambda>call. Inl (Thrown ''unused'')),
                            clock = 1700000000000\<rparr>"

definition env_unregistered :: env where
  "env_unregistered = map_of [(''LLM_PROVIDER'', ''anthropic''), (''OPENAI_API_KEY'', ''sk-test'')]"

definition world_unregistered :: world where
  "world_unregistered = \<lparr>process_env = env_unregistered,
                          text_reply = (\<lambda>call. Inl (Thrown ''unused'')),
                          object_reply = (\<lambda>call. Inr object_ok),
                          clock = 1700000000000\<rparr>"

definition batch_requests :: "MessageClassificationRequest list" where
  "batch_requests =
    [\<lparr>MessageClassificationRequest.message = Some ''Hello, this is a nice and friendly message!'',
      userId = Some ''test-user-1'', metadata = None\<rparr>,
     \<lparr>MessageClassificationRequest.message = Some ''You are such an idiot and I hate you!'',
      userId = Some ''test-user-2'', metadata = None\<rparr>,
     \<lparr>MessageClassificationRequest.message = Some ''Can you help me with my homework please?'',
      userId = Some ''test-user-3'', metadata = None\<rparr>]"

text \<open>
  Two stand-ins for the proxied activity in a batch: one that answers every request
  (marking the second message as offensive), and one whose second activity fails.
\<close>

definition answer_for :: "nat \<Rightarrow> MessageClassificationRequest \<Rightarrow> MessageClassificationResult" where
  "answer_for i r =
    \<lparr>MessageClassificationResult.message = or_else (MessageClassificationRequest.message r) [],
     MessageClassificationResult.isOffensive = (i = 1),
     MessageClassificationResult.confidence = Some (9 / 10),
     MessageClassificationResult.reasoning = Some ''checked'',
     MessageClassificationResult.provider = ''openai'',
     MessageClassificationResult.model = ''gpt-4o-mini'',
     MessageClassificationResult.timestamp = 1700000000000 + i\<rparr>"

definition activity_answers ::
    "nat \<Rightarrow> MessageClassificationRequest \<Rightarrow> js_error + MessageClassificationResult" where
  "activity_answers i r = Inr (answer_for i r)"

definition activity_second_fails ::
    "nat \<Rightarrow> MessageClassificationRequest \<Rightarrow> js_error + MessageClassificationResult" where
  "activity_second_fails i r =
    (if i = 1 then Inl (ClassificationError ''Failed to classify message: timeout'' r None)
     else Inr (answer_for i r))"

text \<open>
  Two attempt sequences: a transient failure on attempts 1 and 2 and a success on
  attempt 3, and a failure on every attempt.
\<close>

definition transient_twice :: "nat \<Rightarrow> js_error + MessageClassificationResult" where
  "transient_twice k =
    (if k = 1 then Inl (Error ''Error'' ''attempt 1 failed'')
     else if k = 2 then Inl (Error ''Error'' ''attempt 2 failed'')
     else Inr (answer_for 0 request_hello))"

definition always_failing :: "nat \<Rightarrow> js_error + MessageClassificationResult" where
  "always_failing k =
    (if k = 1 then Inl (Error ''Error'' ''attempt 1 failed'')
     else if k = 2 then Inl (Error ''Error'' ''attempt 2 failed'')
     else Inl (Error ''Error'' ''attempt 3 failed''))"

section \<open>Properties\<close>

subsection \<open>Blank messages\<close>

lemma trim_empty_iff: "trim s = [] \<longleftrightarrow> list_all is_js_space s"
proof
  assume "trim s = []"
  then have all: "\<forall>x \<in> set (dropWhile is_js_space s). is_js_space x"
    by (simp add: trim_def dropWhile_eq_Nil_conv)
  have "dropWhile is_js_space s = []"
  proof (rule ccontr)
    assume ne: "dropWhile is_js_space s \<noteq> []"
    then have "\<not> is_js_space (hd (dropWhile is_js_space s))" by (rule hd_dropWhile)
    moreover have "hd (dropWhile is_js_space s) \<in> set (dropWhile is_js_space s)"
      using ne by simp
    ultimately show False using all by blast
  qed
  then show "list_all is_js_space s"
    by (simp add: dropWhile_eq_Nil_conv list_all_iff)
next
  assume "list_all is_js_space s"
  then have "dropWhile is_js_space s = []"
    by (simp add: dropWhile_eq_Nil_conv list_all_iff)
  then show "trim s = []" unfolding trim_def by (simp del: dropWhile_eq_Nil_conv)
qed

lemma classifyMessage_blank:
  assumes "MessageClassificationRequest.message request = Some m" "list_all is_js_space m"
  shows "classifyMessage w llmProvider request
           = (Inl (ClassificationError ''Message cannot be empty'' request None), [])"
proof -
  have "trim m = []" using assms(2) by (simp add: trim_empty_iff)
  then have "classifyMessage_body w llmProvider request
           = (Inl (ClassificationError ''Message cannot be empty'' request None), [])"
    using assms(1) by (simp add: classifyMessage_body_def or_else_def truthy_def)
  then show ?thesis
    by (simp add: classifyMessage_def try_catch_def classifyMessage_catch_def)
qed

subsection \<open>The paths through the activity\<close>

lemma classifyMessage_catch_Inl: "\<exists>e'. classifyMessage_catch request e = Inl e'"
  by (simp add: classifyMessage_catch_def)

lemma classifyMessage_Inr_body:
  assumes "fst (classifyMessage w llmProvider request) = Inr res"
  shows "fst (classifyMessage_body w llmProvider request) = Inr res"
proof (cases "classifyMessage_body w llmProvider request")
  case (Pair r effects)
  show ?thesis
  proof (cases r)
    case (Inl e)
    then show ?thesis
      using assms Pair classifyMessage_catch_Inl [of request e]
      by (auto simp: classifyMessage_def try_catch_def)
  next
    case (Inr v)
    then show ?thesis
      using assms Pair by (simp add: classifyMessage_def try_catch_def)
  qed
qed

lemma z_number_min_max_Inr:
  "z_number_min_max lo hi key v = Inr x \<Longrightarrow> lo \<le> x \<and> x \<le> hi"
  by (auto simp: z_number_min_max_def split: option.splits json.splits if_splits)

lemma classificationSchema_parse_bounds:
  assumes "classificationSchema_parse j = Inr d"
  shows "0 \<le> Classification.confidence d \<and> Classification.confidence d \<le> 1"
proof (cases j)
  case (JObject kvs)
  with assms have "z_number_min_max 0 1 ''confidence'' (object_get kvs ''confidence'')
                     = Inr (Classification.confidence d)"
    by (auto simp: classificationSchema_parse_def Let_def split: sum.splits)
  then show ?thesis by (rule z_number_min_max_Inr)
qed (use assms in \<open>simp_all add: classificationSchema_parse_def\<close>)

lemma extract_classification_valid:
  "extract_classification text = Inr d \<Longrightarrow> \<exists>j. classificationSchema_parse j = Inr d"
  by (auto simp: extract_classification_def split: option.splits sum.splits)

lemma parse_lmstudio_response_Inr:
  "parse_lmstudio_response request text = Inr d \<Longrightarrow> extract_classification text = Inr d"
  by (auto simp: parse_lmstudio_response_def try_catch_def split: sum.splits)

lemma generateObject_valid:
  "generateObject w call schema = Inr d \<Longrightarrow> \<exists>raw. schema raw = Inr d"
  by (auto simp: generateObject_def split: sum.splits)

lemma or_else_lmstudio: "or_else v ''openai'' = ''lmstudio'' \<longleftrightarrow> v = Some ''lmstudio''"
  by (auto simp: or_else_def split: option.splits)

lemma nonblank_message:
  assumes "MessageClassificationRequest.message request = Some m" "\<not> list_all is_js_space m"
  shows "truthy (MessageClassificationRequest.message request)"
    and "or_else (MessageClassificationRequest.message request) [] = m"
    and "length (trim m) \<noteq> 0"
proof -
  have "m \<noteq> []" using assms(2) by auto
  then show "truthy (MessageClassificationRequest.message request)"
    and "or_else (MessageClassificationRequest.message request) [] = m"
    using assms(1) by (simp_all add: truthy_def or_else_def)
  show "length (trim m) \<noteq> 0" using assms(2) by (simp add: trim_empty_iff)
qed

lemma body_getModel_fails:
  assumes "MessageClassificationRequest.message request = Some m" "\<not> list_all is_js_space m"
      and "getModel llmProvider (process_env w) None = Inl e"
  shows "classifyMessage_body w llmProvider request = (Inl e, [GetModel])"
  using nonblank_message [OF assms(1,2)] assms(3)
  by (simp add: classifyMessage_body_def)

lemma body_free_text:
  assumes "MessageClassificationRequest.message request = Some m" "\<not> list_all is_js_space m"
      and "getModel llmProvider (process_env w) None = Inr h"
      and "process_env w ''LLM_PROVIDER'' = Some ''lmstudio''"
  shows "classifyMessage_body w llmProvider request =
          (case text_reply w (free_text_call h m) of
             Inl e \<Rightarrow> Inl e
           | Inr text \<Rightarrow> (case parse_lmstudio_response request text of
                            Inl e \<Rightarrow> Inl e
                          | Inr d \<Rightarrow> Inr (stamped_result w m d)),
           [GetModel, ModelCall (free_text_call h m)])"
proof -
  have p: "or_else (process_env w ''LLM_PROVIDER'') ''openai'' = ''lmstudio''"
    using assms(4) by (simp add: or_else_lmstudio)
  show ?thesis
    using nonblank_message [OF assms(1,2)] assms(3)
    unfolding classifyMessage_body_def Let_def p
    by (simp add: free_text_call_def stamped_result_def generateText_def p
             split: sum.splits)
qed

lemma body_structured:
  assumes "MessageClassificationRequest.message request = Some m" "\<not> list_all is_js_space m"
      and "getModel llmProvider (process_env w) None = Inr h"
      and "process_env w ''LLM_PROVIDER'' \<noteq> Some ''lmstudio''"
  shows "classifyMessage_body w llmProvider request =
          (case generateObject w (structured_call h m) classificationSchema_parse of
             Inl e \<Rightarrow> Inl e
           | Inr d \<Rightarrow> Inr (stamped_result w m d),
           [GetModel, ModelCall (structured_call h m)])"
proof -
  have p: "or_else (process_env w ''LLM_PROVIDER'') ''openai'' \<noteq> ''lmstudio''"
    using assms(4) by (simp add: or_else_lmstudio)
  show ?thesis
    using nonblank_message [OF assms(1,2)] assms(3) p
    unfolding classifyMessage_body_def Let_def
    by (simp add: structured_call_def stamped_result_def split: sum.splits)
qed

lemma getModel_Inl: "getModel llmProvider e config = Inl err \<Longrightarrow> is_LLMProviderError err"
  by (auto simp: getModel_def Let_def split: sum.splits)

lemma classifyMessage_success:
  assumes "fst (classifyMessage w llmProvider request) = Inr res"
  shows "\<exists>m d j. MessageClassificationRequest.message request = Some m
            \<and> \<not> list_all is_js_space m
            \<and> classificationSchema_parse j = Inr d
            \<and> res = stamped_result w m d"
proof -
  have body: "fst (classifyMessage_body w llmProvider request) = Inr res"
    using assms by (rule classifyMessage_Inr_body)
  show ?thesis
  proof (cases "MessageClassificationRequest.message request")
    case None
    then show ?thesis using body by (simp add: classifyMessage_body_def truthy_def)
  next
    case (Some m)
    show ?thesis
    proof (cases "list_all is_js_space m")
      case True
      then have "trim m = []" by (simp add: trim_empty_iff)
      then show ?thesis
        using body Some by (simp add: classifyMessage_body_def or_else_def truthy_def)
    next
      case False
      show ?thesis
      proof (cases "getModel llmProvider (process_env w) None")
        case (Inl e)
        then show ?thesis using body body_getModel_fails [OF Some False Inl] by simp
      next
        case (Inr h)
        have "\<exists>d. (\<exists>j. classificationSchema_parse j = Inr d) \<and> res = stamped_result w m d"
        proof (cases "process_env w ''LLM_PROVIDER'' = Some ''lmstudio''")
          case True
          from body body_free_text [OF Some False Inr True]
          obtain reply d where "parse_lmstudio_response request reply = Inr d"
            "res = stamped_result w m d"
            by (auto split: sum.splits)
          then show ?thesis
            using parse_lmstudio_response_Inr extract_classification_valid by blast
        next
          case False2: False
          from body body_structured [OF Some False Inr False2]
          obtain d where "generateObject w (structured_call h m) classificationSchema_parse = Inr d"
            "res = stamped_result w m d"
            by (auto split: sum.splits)
          then show ?thesis using generateObject_valid [of w "structured_call h m" classificationSchema_parse d] by blast
        qed
        then show ?thesis using Some False by blast
      qed
    qed
  qed
qed

subsection \<open>Evaluations on the concrete inputs\<close>

lemma getModel_openai:
  "getModel manager_openai env_openai None = Inr (LanguageModel (OpenAI ''sk-test'' None) ''gpt-4o-mini'')"
  by code_simp

lemma getModel_lmstudio:
  "getModel manager_lmstudio_only env_lmstudio None = Inr handle_lmstudio"
  by code_simp

lemma schema_object_ok: "classificationSchema_parse object_ok = Inr embedded_data"
  by code_simp

lemma JSON_parse_embedded_object: "JSON_parse embedded_object = Inr object_ok"
  by code_simp

lemma hello_not_blank:
  "\<not> list_all is_js_space ''Hello, this is a nice and friendly message!''"
  by (simp add: is_js_space_def)

subsection \<open>Whole runs of the activity, and the extraction step\<close>

lemma run_getModel_fails:
  assumes "MessageClassificationRequest.message request = Some m" "\<not> list_all is_js_space m"
      and "getModel llmProvider (process_env w) None = Inl e"
  shows "classifyMessage w llmProvider request = (Inl e, [GetModel])"
  using body_getModel_fails [OF assms] getModel_Inl [OF assms(3)]
  by (simp add: classifyMessage_def try_catch_def classifyMessage_catch_def)

lemma run_structured:
  assumes "MessageClassificationRequest.message request = Some m" "\<not> list_all is_js_space m"
      and "getModel llmProvider (process_env w) None = Inr h"
      and "process_env w ''LLM_PROVIDER'' \<noteq> Some ''lmstudio''"
  shows "classifyMessage w llmProvider request =
          (try_catch
             (case generateObject w (structured_call h m) classificationSchema_parse of
                Inl e \<Rightarrow> Inl e
              | Inr d \<Rightarrow> Inr (stamped_result w m d))
             (classifyMessage_catch request),
           [GetModel, ModelCall (structured_call h m)])"
  using body_structured [OF assms] by (simp add: classifyMessage_def)

lemma extract_classification_Inl:
  assumes "extract_classification reply = Inl cause"
  shows "instanceof_Error cause"
proof (cases "match_braces reply")
  case None
  then show ?thesis using assms by (auto simp: extract_classification_def)
next
  case (Some jm)
  show ?thesis
  proof (cases "JSON_parse jm")
    case (Inl e)
    then have "cause = e" using assms Some by (simp add: extract_classification_def)
    moreover have "instanceof_Error e"
      using Inl by (auto simp: JSON_parse_def split: option.splits)
    ultimately show ?thesis by simp
  next
    case (Inr j)
    then have "classificationSchema_parse j = Inl cause"
      using assms Some by (simp add: extract_classification_def)
    then show ?thesis
      by (auto simp: classificationSchema_parse_def ZodError_def Let_def
               split: json.splits sum.splits)
  qed
qed

lemma run_free_text_reply:
  assumes "MessageClassificationRequest.message request = Some m" "\<not> list_all is_js_space m"
      and "getModel llmProvider (process_env w) None = Inr h"
      and "process_env w ''LLM_PROVIDER'' = Some ''lmstudio''"
      and "text_reply w (free_text_call h m) = Inr reply"
  shows "classifyMessage w llmProvider request =
          (case extract_classification reply of
             Inr d \<Rightarrow> Inr (stamped_result w m d)
           | Inl cause \<Rightarrow>
               Inl (ClassificationError
                      (''Failed to parse LM Studio response: '' @ error_message cause
                         @ ''. Response was: '' @ reply)
                      request (Some cause)),
           [GetModel, ModelCall (free_text_call h m)])"
proof (cases "extract_classification reply")
  case (Inl cause)
  then have "instanceof_Error cause" by (rule extract_classification_Inl)
  then show ?thesis
    using body_free_text [OF assms(1-4)] assms(5) Inl
    by (simp add: classifyMessage_def try_catch_def classifyMessage_catch_def
        parse_lmstudio_response_def)
next
  case (Inr d)
  then show ?thesis
    using body_free_text [OF assms(1-4)] assms(5)
    by (simp add: classifyMessage_def try_catch_def parse_lmstudio_response_def)
qed

lemma greedy_to_brace_None: "CHR ''}'' \<notin> set s \<Longrightarrow> greedy_to_brace s = None"
  by (induction s) auto

lemma greedy_to_brace_last:
  "CHR ''}'' \<notin> set post \<Longrightarrow> greedy_to_brace (xs @ CHR ''}'' # post) = Some (xs @ [CHR ''}''])"
  by (induction xs) (simp_all add: greedy_to_brace_None)

lemma match_braces_embedded:
  assumes "CHR ''{'' \<notin> set pre" "CHR ''}'' \<notin> set post"
  shows "match_braces (pre @ (CHR ''{'' # body @ [CHR ''}'']) @ post) = Some (CHR ''{'' # body @ [CHR ''}''])"
  using assms(1)
proof (induction pre)
  case Nil
  show ?case using greedy_to_brace_last [OF assms(2), of body] by simp
next
  case (Cons c pre)
  then show ?case by auto
qed

lemma schema_fields:
  assumes "classificationSchema_parse j = Inr d"
  shows "\<exists>kvs. j = JObject kvs
           \<and> object_get kvs ''isOffensive'' = Some (JBool (Classification.isOffensive d))
           \<and> object_get kvs ''confidence'' = Some (JNumber (Classification.confidence d))
           \<and> object_get kvs ''reasoning'' = Some (JString (Classification.reasoning d))"
proof (cases j)
  case (JObject kvs)
  with assms have
    "z_boolean ''isOffensive'' (object_get kvs ''isOffensive'') = Inr (Classification.isOffensive d)"
    "z_number_min_max 0 1 ''confidence'' (object_get kvs ''confidence'') = Inr (Classification.confidence d)"
    "z_string ''reasoning'' (object_get kvs ''reasoning'') = Inr (Classification.reasoning d)"
    by (auto simp: classificationSchema_parse_def Let_def split: sum.splits)
  then have
    "object_get kvs ''isOffensive'' = Some (JBool (Classification.isOffensive d))"
    "object_get kvs ''confidence'' = Some (JNumber (Classification.confidence d))"
    "object_get kvs ''reasoning'' = Some (JString (Classification.reasoning d))"
    by (auto simp: z_boolean_def z_number_min_max_def z_string_def
             split: option.splits json.splits if_splits)
  then show ?thesis using JObject by simp
qed (use assms in \<open>simp_all add: classificationSchema_parse_def\<close>)

subsection \<open>Runs on the concrete inputs\<close>

lemma try_catch_rethrow: "try_catch r (\<lambda>error. Inl error) = r"
  by (cases r) (simp_all add: try_catch_def)

lemma snd_classifyMessage:
  "snd (classifyMessage w llmProvider request) = snd (classifyMessage_body w llmProvider request)"
  by (simp add: classifyMessage_def split: prod.splits)

lemma request_hello_message:
  "MessageClassificationRequest.message request_hello = Some ''Hello, this is a nice and friendly message!''"
  by (simp add: request_hello_def)

lemma openai_hello_run:
  "classifyMessage world_openai manager_openai request_hello
     = (Inr (stamped_result world_openai ''Hello, this is a nice and friendly message!'' embedded_data),
        [GetModel, ModelCall (structured_call (LanguageModel (OpenAI ''sk-test'' None) ''gpt-4o-mini'')
                                ''Hello, this is a nice and friendly message!'')])"
proof -
  have g: "getModel manager_openai (process_env world_openai) None
             = Inr (LanguageModel (OpenAI ''sk-test'' None) ''gpt-4o-mini'')"
    using getModel_openai by (simp add: world_openai_def)
  have p: "process_env world_openai ''LLM_PROVIDER'' \<noteq> Some ''lmstudio''"
    by (simp add: world_openai_def env_openai_def)
  have o: "generateObject world_openai
             (structured_call (LanguageModel (OpenAI ''sk-test'' None) ''gpt-4o-mini'')
                ''Hello, this is a nice and friendly message!'')
             classificationSchema_parse = Inr embedded_data"
    by (simp add: generateObject_def world_openai_def schema_object_ok)
  show ?thesis
    using run_structured [OF request_hello_message hello_not_blank g p] o
    by (simp add: try_catch_def)
qed

lemma lmstudio_hello_run:
  "classifyMessage (world_lmstudio reply) manager_lmstudio_only request_hello =
     (case extract_classification reply of
        Inr d \<Rightarrow> Inr (stamped_result (world_lmstudio reply)
                        ''Hello, this is a nice and friendly message!'' d)
      | Inl cause \<Rightarrow>
          Inl (ClassificationError
                 (''Failed to parse LM Studio response: '' @ error_message cause
                    @ ''. Response was: '' @ reply)
                 request_hello (Some cause)),
      [GetModel, ModelCall (free_text_call handle_lmstudio
                              ''Hello, this is a nice and friendly message!'')])"
proof -
  have g: "getModel manager_lmstudio_only (process_env (world_lmstudio reply)) None
             = Inr handle_lmstudio"
    using getModel_lmstudio by (simp add: world_lmstudio_def)
  have p: "process_env (world_lmstudio reply) ''LLM_PROVIDER'' = Some ''lmstudio''"
    by (simp add: world_lmstudio_def env_lmstudio_def)
  have r: "text_reply (world_lmstudio reply)
             (free_text_call handle_lmstudio ''Hello, this is a nice and friendly message!'')
             = Inr reply"
    by (simp add: world_lmstudio_def)
  show ?thesis
    by (rule run_free_text_reply [OF request_hello_message hello_not_blank g p r])
qed

lemma extract_trailing_brace_reply:
  "extract_classification (''Sure: '' @ embedded_object @ '' :-}'')
     = Inl (Error ''SyntaxError'' ''Unexpected token in JSON'')"
  by code_simp

subsection \<open>The combined promise of a batch\<close>

lemma those_Some_nth:
  "those xs = Some vs \<Longrightarrow> length vs = length xs \<and> (\<forall>i < length xs. xs ! i = Some (vs ! i))"
proof (induction xs arbitrary: vs)
  case Nil
  then show ?case by simp
next
  case (Cons x xs)
  then obtain y ys where x: "x = Some y" and ys: "those xs = Some ys" and vs: "vs = y # ys"
    by (auto split: option.splits)
  from Cons.IH [OF ys] show ?case
    using x vs by (auto simp: nth_Cons')
qed

lemma those_None_nth: "those xs = None \<Longrightarrow> \<exists>i < length xs. xs ! i = None"
proof (induction xs)
  case Nil
  then show ?case by simp
next
  case (Cons x xs)
  show ?case
  proof (cases x)
    case None
    then show ?thesis by auto
  next
    case (Some y)
    with Cons.prems have "those xs = None" by (simp split: option.splits)
    then obtain i where "i < length xs" "xs ! i = None" using Cons.IH by blast
    then have "Suc i < length (x # xs)" "(x # xs) ! Suc i = None" by simp_all
    then show ?thesis by blast
  qed
qed

lemma settle_consistent:
  assumes "promise_consistent outcomes s"
  shows "promise_consistent outcomes (settle outcomes s i)"
proof (cases s)
  case (Pending slots)
  note inv = assms [unfolded Pending, simplified]
  show ?thesis
  proof (cases "i < length outcomes")
    case False
    then show ?thesis using assms Pending by auto
  next
    case True
    show ?thesis
    proof (cases "outcomes ! i")
      case (Inl e)
      then show ?thesis using True Pending by auto
    next
      case (Inr v)
      have upd: "\<forall>k < length outcomes. \<forall>u. slots[i := Some v] ! k = Some u \<longrightarrow> outcomes ! k = Inr u"
        using inv Inr True by (auto simp: nth_list_update)
      show ?thesis
      proof (cases "those (slots[i := Some v])")
        case None
        then have "\<exists>k < length (slots[i := Some v]). slots[i := Some v] ! k = None"
          by (rule those_None_nth)
        then show ?thesis
          using True Pending Inr None inv upd by simp
      next
        case (Some vs)
        from those_Some_nth [OF Some] have
          "length vs = length outcomes" "\<forall>k < length outcomes. slots[i := Some v] ! k = Some (vs ! k)"
          using inv by simp_all
        then show ?thesis
          using True Pending Inr Some upd by simp
      qed
    qed
  qed
next
  case (Fulfilled vs)
  then show ?thesis using assms by simp
next
  case (Rejected e)
  then show ?thesis using assms by simp
qed

lemma foldl_settle_consistent:
  "promise_consistent outcomes s \<Longrightarrow> promise_consistent outcomes (foldl (settle outcomes) s order)"
  by (induction order arbitrary: s) (simp_all add: settle_consistent)

lemma Promise_all_consistent: "promise_consistent outcomes (Promise_all order outcomes)"
proof (cases "outcomes = []")
  case True
  then show ?thesis by (simp add: Promise_all_def)
next
  case False
  then have "promise_consistent outcomes (Pending (replicate (length outcomes) None))"
    by auto
  then show ?thesis
    using False by (simp add: Promise_all_def foldl_settle_consistent)
qed

lemma foldl_settle_Rejected: "foldl (settle outcomes) (Rejected e) order = Rejected e"
  by (induction order) simp_all

lemma foldl_settle_rejects:
  assumes "i < length outcomes" "outcomes ! i = Inl e"
  shows "promise_consistent outcomes s \<Longrightarrow> i \<in> set order
           \<Longrightarrow> \<exists>e'. foldl (settle outcomes) s order = Rejected e'"
proof (induction order arbitrary: s)
  case Nil
  then show ?case by simp
next
  case (Cons x xs)
  have next_ok: "promise_consistent outcomes (settle outcomes s x)"
    using Cons.prems(1) by (rule settle_consistent)
  show ?case
  proof (cases "x = i")
    case True
    have "\<exists>e'. settle outcomes s x = Rejected e'"
    proof (cases s)
      case (Pending slots)
      then show ?thesis using True assms by simp
    next
      case (Fulfilled vs)
      then show ?thesis using Cons.prems(1) assms by auto
    next
      case (Rejected e0)
      then show ?thesis by simp
    qed
    then show ?thesis by (auto simp: foldl_settle_Rejected)
  next
    case False
    then have "i \<in> set xs" using Cons.prems(2) by simp
    from Cons.IH [OF next_ok this] show ?thesis by simp
  qed
qed

lemma settle_fills:
  assumes "i < length outcomes" "promise_consistent outcomes s"
  shows "slot_filled (settle outcomes s i) i"
proof (cases s)
  case (Pending slots)
  then have "length slots = length outcomes" using assms(2) by simp
  then show ?thesis
    using Pending assms(1) by (auto split: sum.splits option.splits)
qed simp_all

lemma list_update_keeps_Some:
  "slots ! k \<noteq> None \<Longrightarrow> slots[i := Some v] ! k \<noteq> None"
  by (cases "i < length slots") (auto simp: nth_list_update list_update_beyond)

lemma settle_keeps_filled: "slot_filled s k \<Longrightarrow> slot_filled (settle outcomes s i) k"
  by (cases s) (auto simp: list_update_keeps_Some simp del: not_None_eq split: sum.splits option.splits)

lemma foldl_settle_keeps_filled:
  "slot_filled s k \<Longrightarrow> slot_filled (foldl (settle outcomes) s order) k"
  by (induction order arbitrary: s) (simp_all add: settle_keeps_filled)

lemma foldl_settle_fills:
  assumes "k < length outcomes"
  shows "promise_consistent outcomes s \<Longrightarrow> k \<in> set order
           \<Longrightarrow> slot_filled (foldl (settle outcomes) s order) k"
proof (induction order arbitrary: s)
  case Nil
  then show ?case by simp
next
  case (Cons x xs)
  show ?case
  proof (cases "x = k")
    case True
    then have "slot_filled (settle outcomes s x) k"
      using settle_fills [OF assms Cons.prems(1)] by simp
    then show ?thesis by (simp add: foldl_settle_keeps_filled)
  next
    case False
    then have "k \<in> set xs" using Cons.prems(2) by simp
    moreover have "promise_consistent outcomes (settle outcomes s x)"
      using Cons.prems(1) by (rule settle_consistent)
    ultimately show ?thesis using Cons.IH by simp
  qed
qed

lemma Promise_all_not_Pending:
  assumes "\<forall>k < length outcomes. k \<in> set order"
  shows "Promise_all order outcomes \<noteq> Pending slots"
proof
  assume p: "Promise_all order outcomes = Pending slots"
  then have ne: "outcomes \<noteq> []" by (auto simp: Promise_all_def)
  have c: "promise_consistent outcomes (Pending slots)"
    using Promise_all_consistent [of outcomes order] unfolding p .
  have len: "length slots = length outcomes" using c by simp
  have "\<exists>i < length slots. slots ! i = None" using c by auto
  then obtain i where i: "i < length slots" "slots ! i = None" by blast
  have start: "promise_consistent outcomes (Pending (replicate (length outcomes) None))"
    using ne by auto
  have "slot_filled (foldl (settle outcomes) (Pending (replicate (length outcomes) None)) order) i"
    using foldl_settle_fills [OF _ start, of i order] assms i len by simp
  then have "slot_filled (Pending slots) i"
    using p ne by (simp add: Promise_all_def)
  then show False using i by simp
qed

lemma Promise_all_fulfils:
  assumes "\<forall>k < length outcomes. k \<in> set order"
      and "length vs = length outcomes"
      and "\<forall>k < length outcomes. outcomes ! k = Inr (vs ! k)"
  shows "Promise_all order outcomes = Fulfilled vs"
proof (cases "Promise_all order outcomes")
  case (Pending slots)
  then show ?thesis using Promise_all_not_Pending [OF assms(1)] by simp
next
  case (Fulfilled vs')
  then have "promise_consistent outcomes (Fulfilled vs')"
    using Promise_all_consistent [of outcomes order] by simp
  then have "length vs' = length vs" "\<forall>k < length vs. vs' ! k = vs ! k"
    using assms(2,3) by auto
  then have "vs' = vs" by (simp add: list_eq_iff_nth_eq)
  then show ?thesis using Fulfilled by simp
next
  case (Rejected e)
  then have "promise_consistent outcomes (Rejected e)"
    using Promise_all_consistent [of outcomes order] by simp
  then show ?thesis using assms(3) by auto
qed

lemma Promise_all_rejects:
  assumes "i < length outcomes" "outcomes ! i = Inl e" "i \<in> set order"
  shows "\<exists>e'. Promise_all order outcomes = Rejected e' \<and> (\<exists>j < length outcomes. outcomes ! j = Inl e')"
proof -
  have ne: "outcomes \<noteq> []" using assms(1) by auto
  then have start: "promise_consistent outcomes (Pending (replicate (length outcomes) None))"
    by auto
  from foldl_settle_rejects [OF assms(1,2) start assms(3)]
  obtain e' where r: "Promise_all order outcomes = Rejected e'"
    using ne by (auto simp: Promise_all_def)
  then have "promise_consistent outcomes (Rejected e')"
    using Promise_all_consistent [of outcomes order] by simp
  then show ?thesis using r by simp
qed

lemma batch_outcomes_nth:
  "i < length rs \<Longrightarrow> map (\<lambda>(i, r). act i r) (enumerate 0 rs) ! i = act i (rs ! i)"
  by (simp add: nth_enumerate_eq)

subsection \<open>Configuration validation\<close>

text \<open>
  C1. \<open>validateConfiguration\<close> is to report an error whenever the provider that
  classification will use is not among the available providers. It does not when
  \<open>LLM_PROVIDER\<close> is unset: with only \<open>LMSTUDIO_BASE_URL\<close> set, \<open>getModel\<close> and the
  activity use the default \<open>openai\<close>, that provider is not available and \<open>getModel\<close>
  fails, yet \<open>validateConfiguration\<close> returns \<open>isValid = true\<close> and no error,
  because its checks read \<open>LLM_PROVIDER\<close> without the default.
\<close>

theorem validateConfiguration_misses_default_provider:
  "validateConfiguration env_lmstudio_only = \<lparr>isValid = True, errors = []\<rparr>
   \<and> or_else (env_lmstudio_only ''LLM_PROVIDER'') ''openai'' = ''openai''
   \<and> ''openai'' \<notin> set (getAvailableProviders env_lmstudio_only)
   \<and> getInstance env_lmstudio_only = Inr manager_lmstudio_only
   \<and> getModel manager_lmstudio_only env_lmstudio_only None
       = Inl (LLMProviderError ''Failed to get model gpt-4o-mini from provider openai'' ''openai''
               (Some (Error ''AI_NoSuchProviderError'' ''No such provider: openai'')))"
  by code_simp

subsection \<open>The activity on blank messages\<close>

text \<open>
  C2. For every request whose message is empty or consists only of white space, the
  activity fails with \<open>ClassificationError\<close> and performs no effect at all: the model
  handle is not resolved and neither generation function is called.
\<close>

theorem classifyMessage_rejects_blank_message:
  assumes "MessageClassificationRequest.message request = Some m"
      and "\<forall>c \<in> set m. is_js_space c"
  shows "classifyMessage w llmProvider request
           = (Inl (ClassificationError ''Message cannot be empty'' request None), [])"
  using assms classifyMessage_blank by (simp add: list_all_iff)

theorem classifyMessage_rejects_blank_message_witness:
  "MessageClassificationRequest.message request_blank = Some [CHR 0x20, CHR 0x09, CHR 0x0A]
   \<and> list_all is_js_space [CHR 0x20, CHR 0x09, CHR 0x0A]
   \<and> classifyMessage world_openai manager_openai request_blank
       = (Inl (ClassificationError ''Message cannot be empty'' request_blank None), [])"
proof -
  have h1: "MessageClassificationRequest.message request_blank = Some [CHR 0x20, CHR 0x09, CHR 0x0A]"
    by (simp add: request_blank_def)
  have h2: "\<forall>c \<in> set [CHR 0x20, CHR 0x09, CHR 0x0A]. is_js_space c"
    by (simp add: is_js_space_def)
  show ?thesis
    using h1 h2 classifyMessage_rejects_blank_message [OF h1 h2, of world_openai manager_openai]
    by (simp add: list_all_iff)
qed

subsection \<open>The free-text path: extraction\<close>

text \<open>
  C3, as amended. On the free-text (lmstudio) path, when the raw response is an object
  text \<open>obj\<close>, delimited by braces, between a prose prefix with no opening brace and a
  prose suffix with no closing brace, and \<open>obj\<close> parses as JSON and conforms to the
  classification schema, then the match is exactly \<open>obj\<close>, and the activity returns
  the result built from the validated object: its \<open>isOffensive\<close>, \<open>confidence\<close> and
  \<open>reasoning\<close> are those of the embedded object.
\<close>

theorem free_text_extraction_of_embedded_object:
  assumes "MessageClassificationRequest.message request = Some m"
      and "\<not> list_all is_js_space m"
      and "process_env w ''LLM_PROVIDER'' = Some ''lmstudio''"
      and "getModel llmProvider (process_env w) None = Inr h"
      and "text_reply w (free_text_call h m) = Inr (pre @ obj @ post)"
      and "obj = CHR ''{'' # body @ [CHR ''}'']"
      and "CHR ''{'' \<notin> set pre"
      and "CHR ''}'' \<notin> set post"
      and "JSON_parse obj = Inr j"
      and "classificationSchema_parse j = Inr d"
  shows "match_braces (pre @ obj @ post) = Some obj
         \<and> classifyMessage w llmProvider request
             = (Inr (stamped_result w m d), [GetModel, ModelCall (free_text_call h m)])
         \<and> (\<exists>kvs. j = JObject kvs
               \<and> object_get kvs ''isOffensive''
                   = Some (JBool (MessageClassificationResult.isOffensive (stamped_result w m d)))
               \<and> map_option JNumber (MessageClassificationResult.confidence (stamped_result w m d))
                   = object_get kvs ''confidence''
               \<and> map_option JString (MessageClassificationResult.reasoning (stamped_result w m d))
                   = object_get kvs ''reasoning'')"
proof -
  have mb: "match_braces (pre @ obj @ post) = Some obj"
    unfolding assms(6) using assms(7,8) by (rule match_braces_embedded)
  then have ex: "extract_classification (pre @ obj @ post) = Inr d"
    using assms(9,10) by (simp add: extract_classification_def)
  have run: "classifyMessage w llmProvider request
             = (Inr (stamped_result w m d), [GetModel, ModelCall (free_text_call h m)])"
    using run_free_text_reply [OF assms(1,2,4,3,5)] ex by simp
  from schema_fields [OF assms(10)] obtain kvs where
    "j = JObject kvs"
    "object_get kvs ''isOffensive'' = Some (JBool (Classification.isOffensive d))"
    "object_get kvs ''confidence'' = Some (JNumber (Classification.confidence d))"
    "object_get kvs ''reasoning'' = Some (JString (Classification.reasoning d))"
    by blast
  then have "\<exists>kvs. j = JObject kvs
               \<and> object_get kvs ''isOffensive''
                   = Some (JBool (MessageClassificationResult.isOffensive (stamped_result w m d)))
               \<and> map_option JNumber (MessageClassificationResult.confidence (stamped_result w m d))
                   = object_get kvs ''confidence''
               \<and> map_option JString (MessageClassificationResult.reasoning (stamped_result w m d))
                   = object_get kvs ''reasoning''"
    by (simp add: stamped_result_def)
  with mb run show ?thesis by blast
qed

theorem free_text_extraction_of_embedded_object_witness:
  \<open>classifyMessage (world_lmstudio (''Sure, here it is: '' @ embedded_object @ '' Done.''))
       manager_lmstudio_only request_hello
     = (Inr \<lparr>MessageClassificationResult.message = ''Hello, this is a nice and friendly message!'',
             MessageClassificationResult.isOffensive = False,
             MessageClassificationResult.confidence = Some (9 / 10),
             MessageClassificationResult.reasoning = Some ''friendly greeting'',
             MessageClassificationResult.provider = ''lmstudio'',
             MessageClassificationResult.model = ''qwen2.5-7b-instruct'',
             MessageClassificationResult.timestamp = 1700000000000\<rparr>,
        [GetModel, ModelCall (free_text_call handle_lmstudio
                                ''Hello, this is a nice and friendly message!'')])
   \<and> match_braces (''Sure, here it is: '' @ embedded_object @ '' Done.'') = Some embedded_object
   \<and> JSON_parse embedded_object = Inr object_ok
   \<and> classificationSchema_parse object_ok = Inr embedded_data\<close>
proof -
  let ?reply = "''Sure, here it is: '' @ embedded_object @ '' Done.''"
  let ?w = "world_lmstudio ?reply"
  have p: "process_env ?w ''LLM_PROVIDER'' = Some ''lmstudio''"
    by (simp add: world_lmstudio_def env_lmstudio_def)
  have g: "getModel manager_lmstudio_only (process_env ?w) None = Inr handle_lmstudio"
    using getModel_lmstudio by (simp add: world_lmstudio_def)
  have r: "text_reply ?w (free_text_call handle_lmstudio ''Hello, this is a nice and friendly message!'')
             = Inr ?reply"
    by (simp add: world_lmstudio_def)
  have o: \<open>embedded_object
             = CHR ''{'' # ''"isOffensive": false, "confidence": 0.9, "reasoning": "friendly greeting"''
                 @ [CHR ''}'']\<close>
    by (simp add: embedded_object_def)
  have b1: "CHR ''{'' \<notin> set ''Sure, here it is: ''" by simp
  have b2: "CHR ''}'' \<notin> set '' Done.''" by simp
  show ?thesis
    using free_text_extraction_of_embedded_object
            [OF request_hello_message hello_not_blank p g r o b1 b2
                JSON_parse_embedded_object schema_object_ok]
          JSON_parse_embedded_object schema_object_ok
    by (simp add: stamped_result_def world_lmstudio_def env_lmstudio_def or_else_def
                  embedded_data_def)
qed

text \<open>
  C3 as stated fails: the response below holds exactly one JSON object, which parses
  and conforms to the schema, and prose around it; the prose after the object contains
  a closing brace, the greedy match runs up to it, \<open>JSON.parse\<close> throws on the matched
  text and the activity fails with \<open>ClassificationError\<close>.
\<close>

theorem greedy_match_swallows_trailing_brace:
  \<open>JSON_parse embedded_object = Inr object_ok
   \<and> classificationSchema_parse object_ok = Inr embedded_data
   \<and> match_braces (''Sure: '' @ embedded_object @ '' :-}'') = Some (embedded_object @ '' :-}'')
   \<and> classifyMessage (world_lmstudio (''Sure: '' @ embedded_object @ '' :-}''))
        manager_lmstudio_only request_hello
       = (Inl (ClassificationError
                 (''Failed to parse LM Studio response: Unexpected token in JSON. Response was: ''
                    @ ''Sure: '' @ embedded_object @ '' :-}'')
                 request_hello (Some (Error ''SyntaxError'' ''Unexpected token in JSON''))),
          [GetModel, ModelCall (free_text_call handle_lmstudio
                                  ''Hello, this is a nice and friendly message!'')])\<close>
proof -
  have m: \<open>match_braces (''Sure: '' @ embedded_object @ '' :-}'') = Some (embedded_object @ '' :-}'')\<close>
    by code_simp
  show ?thesis
    using lmstudio_hello_run [of \<open>''Sure: '' @ embedded_object @ '' :-}''\<close>]
          extract_trailing_brace_reply JSON_parse_embedded_object schema_object_ok m
    by simp
qed

subsection \<open>The free-text path: failures\<close>

text \<open>
  C4. On the free-text (lmstudio) path, when no brace-delimited substring is found in
  the raw response, or parsing the match fails, or the parsed value fails schema
  validation, the activity raises \<open>ClassificationError\<close>; its message is the fixed
  prefix, the message of the failure, and the raw response text, and its cause is the
  failure. No classification is returned in its place.
\<close>

theorem free_text_failure_raises_ClassificationError:
  assumes "MessageClassificationRequest.message request = Some m"
      and "\<not> list_all is_js_space m"
      and "process_env w ''LLM_PROVIDER'' = Some ''lmstudio''"
      and "getModel llmProvider (process_env w) None = Inr h"
      and "text_reply w (free_text_call h m) = Inr reply"
      and "match_braces reply = None
           \<or> (\<exists>jm e. match_braces reply = Some jm \<and> JSON_parse jm = Inl e)
           \<or> (\<exists>jm j e. match_braces reply = Some jm \<and> JSON_parse jm = Inr j
                  \<and> classificationSchema_parse j = Inl e)"
  shows "\<exists>cause.
           classifyMessage w llmProvider request
             = (Inl (ClassificationError
                       (''Failed to parse LM Studio response: '' @ error_message cause
                          @ ''. Response was: '' @ reply)
                       request (Some cause)),
                [GetModel, ModelCall (free_text_call h m)])
           \<and> (match_braces reply = None
                 \<longrightarrow> cause = Error ''Error'' ''No JSON found in response'')
           \<and> (\<forall>jm e. match_braces reply = Some jm \<and> JSON_parse jm = Inl e \<longrightarrow> cause = e)
           \<and> (\<forall>jm j e. match_braces reply = Some jm \<and> JSON_parse jm = Inr j
                  \<and> classificationSchema_parse j = Inl e \<longrightarrow> cause = e)"
proof -
  from assms(6) obtain cause where c: "extract_classification reply = Inl cause"
    by (auto simp: extract_classification_def)
  have f1: "classifyMessage w llmProvider request
             = (Inl (ClassificationError
                       (''Failed to parse LM Studio response: '' @ error_message cause
                          @ ''. Response was: '' @ reply)
                       request (Some cause)),
                [GetModel, ModelCall (free_text_call h m)])"
    using run_free_text_reply [OF assms(1,2,4,3,5)] c by simp
  have f2: "match_braces reply = None
                 \<longrightarrow> cause = Error ''Error'' ''No JSON found in response''"
    using c by (auto simp: extract_classification_def)
  have f3: "\<forall>jm e. match_braces reply = Some jm \<and> JSON_parse jm = Inl e \<longrightarrow> cause = e"
    using c by (auto simp: extract_classification_def)
  have f4: "\<forall>jm j e. match_braces reply = Some jm \<and> JSON_parse jm = Inr j
                  \<and> classificationSchema_parse j = Inl e \<longrightarrow> cause = e"
    using c by (auto simp: extract_classification_def)
  show ?thesis
    by (rule exI [of _ cause], intro conjI) (fact f1, fact f2, fact f3, fact f4)
qed

theorem free_text_failure_raises_ClassificationError_witness:
  "match_braces ''I cannot classify this message.'' = None
   \<and> classifyMessage (world_lmstudio ''I cannot classify this message.'')
        manager_lmstudio_only request_hello
       = (Inl (ClassificationError
                 (''Failed to parse LM Studio response: No JSON found in response''
                    @ ''. Response was: '' @ ''I cannot classify this message.'')
                 request_hello (Some (Error ''Error'' ''No JSON found in response''))),
          [GetModel, ModelCall (free_text_call handle_lmstudio
                                  ''Hello, this is a nice and friendly message!'')])"
proof -
  let ?reply = "''I cannot classify this message.''"
  let ?w = "world_lmstudio ?reply"
  have p: "process_env ?w ''LLM_PROVIDER'' = Some ''lmstudio''"
    by (simp add: world_lmstudio_def env_lmstudio_def)
  have g: "getModel manager_lmstudio_only (process_env ?w) None = Inr handle_lmstudio"
    using getModel_lmstudio by (simp add: world_lmstudio_def)
  have r: "text_reply ?w (free_text_call handle_lmstudio ''Hello, this is a nice and friendly message!'')
             = Inr ?reply"
    by (simp add: world_lmstudio_def)
  have n: "match_braces ?reply = None" by code_simp
  then have f: "match_braces ?reply = None
           \<or> (\<exists>jm e. match_braces ?reply = Some jm \<and> JSON_parse jm = Inl e)
           \<or> (\<exists>jm j e. match_braces ?reply = Some jm \<and> JSON_parse jm = Inr j
                  \<and> classificationSchema_parse j = Inl e)"
    by simp
  show ?thesis
    using free_text_failure_raises_ClassificationError
            [OF request_hello_message hello_not_blank p g r f] n
    by auto
qed

subsection \<open>Batch classification: order of the results\<close>

text \<open>
  C5. For every non-empty sequence of requests and every order in which the
  classifications complete: a fulfilled batch holds exactly as many results as there
  are requests, and its i-th result is the classification of the i-th request; and when
  every classification completes and succeeds, the batch is fulfilled with the
  classifications in the order of the requests.
\<close>

theorem batch_results_in_input_order:
  assumes "requests \<noteq> []"
  shows "(\<forall>results. fst (batchMessageClassificationWorkflow act order (Some requests))
                      = Fulfilled results
            \<longrightarrow> length results = length requests
                \<and> (\<forall>i < length requests. act i (requests ! i) = Inr (results ! i)))
         \<and> ((\<forall>i < length requests. i \<in> set order)
              \<and> length vs = length requests
              \<and> (\<forall>i < length requests. act i (requests ! i) = Inr (vs ! i))
            \<longrightarrow> fst (batchMessageClassificationWorkflow act order (Some requests))
                  = Fulfilled vs)"
proof -
  let ?outcomes = "map (\<lambda>(i, r). act i r) (enumerate 0 requests)"
  have b: "fst (batchMessageClassificationWorkflow act order (Some requests))
             = Promise_all order ?outcomes"
    using assms by (simp add: batchMessageClassificationWorkflow_def)
  have len: "length ?outcomes = length requests" by simp
  have nth: "?outcomes ! i = act i (requests ! i)" if "i < length requests" for i
    using that by (rule batch_outcomes_nth)
  have part1: "length results = length requests
                \<and> (\<forall>i < length requests. act i (requests ! i) = Inr (results ! i))"
    if f: "fst (batchMessageClassificationWorkflow act order (Some requests)) = Fulfilled results"
    for results
  proof -
    have "promise_consistent ?outcomes (Fulfilled results)"
      using Promise_all_consistent [of ?outcomes order] f b by simp
    then show ?thesis using nth by simp
  qed
  have part2: "fst (batchMessageClassificationWorkflow act order (Some requests)) = Fulfilled vs"
    if h: "(\<forall>i < length requests. i \<in> set order)
              \<and> length vs = length requests
              \<and> (\<forall>i < length requests. act i (requests ! i) = Inr (vs ! i))"
  proof -
    have "Promise_all order ?outcomes = Fulfilled vs"
      by (rule Promise_all_fulfils) (use h nth in simp_all)
    then show ?thesis using b by simp
  qed
  show ?thesis using part1 part2 by blast
qed

theorem batch_results_in_input_order_witness:
  "batch_requests \<noteq> []
   \<and> fst (batchMessageClassificationWorkflow activity_answers [2, 0, 1] (Some batch_requests))
       = Fulfilled [answer_for 0 (batch_requests ! 0), answer_for 1 (batch_requests ! 1),
                    answer_for 2 (batch_requests ! 2)]
   \<and> length batch_requests = 3"
proof -
  have ne: "batch_requests \<noteq> []" by (simp add: batch_requests_def)
  have len: "length batch_requests = 3" by (simp add: batch_requests_def)
  let ?vs = "[answer_for 0 (batch_requests ! 0), answer_for 1 (batch_requests ! 1),
              answer_for 2 (batch_requests ! 2)]"
  have settle_all: "\<forall>i < length batch_requests. i \<in> set [2, 0, 1::nat]"
    using len by auto
  have ok: "\<forall>i < length batch_requests. activity_answers i (batch_requests ! i) = Inr (?vs ! i)"
    using len by (auto simp: activity_answers_def less_Suc_eq numeral_3_eq_3 numeral_2_eq_2)
  have "fst (batchMessageClassificationWorkflow activity_answers [2, 0, 1] (Some batch_requests))
          = Fulfilled ?vs"
    using batch_results_in_input_order
            [OF ne, of activity_answers "[2, 0, 1]" ?vs, THEN conjunct2]
          settle_all ok len
    by simp
  then show ?thesis using ne len by simp
qed

subsection \<open>Batch classification: all or nothing\<close>

text \<open>
  C6. The batch workflow rejects an absent or empty sequence of requests without
  dispatching anything. For a non-empty sequence it is fulfilled only if every
  classification succeeded; if one classification fails, the batch is never fulfilled,
  whatever has completed, and once the failing classification completes the batch is
  rejected with the failure of one of its classifications: no list of results is
  returned.
\<close>

theorem batch_all_or_nothing:
  "batchMessageClassificationWorkflow act order None
     = (Rejected (Error ''Error'' ''Invalid request: at least one message is required''), [])
   \<and> batchMessageClassificationWorkflow act order (Some [])
       = (Rejected (Error ''Error'' ''Invalid request: at least one message is required''), [])
   \<and> (requests \<noteq> []
        \<longrightarrow> (\<forall>results. fst (batchMessageClassificationWorkflow act order (Some requests))
                          = Fulfilled results
               \<longrightarrow> (\<forall>i < length requests. \<exists>v. act i (requests ! i) = Inr v)))
   \<and> (i < length requests \<and> act i (requests ! i) = Inl e
        \<longrightarrow> (\<forall>results. fst (batchMessageClassificationWorkflow act order (Some requests))
                          \<noteq> Fulfilled results)
            \<and> (i \<in> set order
                 \<longrightarrow> (\<exists>e'. fst (batchMessageClassificationWorkflow act order (Some requests))
                             = Rejected e'
                           \<and> (\<exists>j < length requests. act j (requests ! j) = Inl e'))))"
proof -
  let ?outcomes = "map (\<lambda>(i, r). act i r) (enumerate 0 requests)"
  have nth: "?outcomes ! k = act k (requests ! k)" if "k < length requests" for k
    using that by (rule batch_outcomes_nth)
  have b: "fst (batchMessageClassificationWorkflow act order (Some requests))
             = Promise_all order ?outcomes" if "requests \<noteq> []"
    using that by (simp add: batchMessageClassificationWorkflow_def)
  have ful: "\<forall>k < length requests. act k (requests ! k) = Inr (results ! k)"
    if "requests \<noteq> []"
      and "fst (batchMessageClassificationWorkflow act order (Some requests)) = Fulfilled results"
    for results
  proof -
    have "promise_consistent ?outcomes (Fulfilled results)"
      using Promise_all_consistent [of ?outcomes order] that b by simp
    then show ?thesis using nth by simp
  qed
  have c1: "batchMessageClassificationWorkflow act order None
     = (Rejected (Error ''Error'' ''Invalid request: at least one message is required''), [])"
    by (simp add: batchMessageClassificationWorkflow_def)
  have c2: "batchMessageClassificationWorkflow act order (Some [])
     = (Rejected (Error ''Error'' ''Invalid request: at least one message is required''), [])"
    by (simp add: batchMessageClassificationWorkflow_def)
  have c3: "requests \<noteq> []
        \<longrightarrow> (\<forall>results. fst (batchMessageClassificationWorkflow act order (Some requests))
                          = Fulfilled results
               \<longrightarrow> (\<forall>i < length requests. \<exists>v. act i (requests ! i) = Inr v))"
    using ful by blast
  have c4: "i < length requests \<and> act i (requests ! i) = Inl e
        \<longrightarrow> (\<forall>results. fst (batchMessageClassificationWorkflow act order (Some requests))
                          \<noteq> Fulfilled results)
            \<and> (i \<in> set order
                 \<longrightarrow> (\<exists>e'. fst (batchMessageClassificationWorkflow act order (Some requests))
                             = Rejected e'
                           \<and> (\<exists>j < length requests. act j (requests ! j) = Inl e')))"
  proof (intro impI, elim conjE)
    assume i: "i < length requests" and f: "act i (requests ! i) = Inl e"
    then have ne: "requests \<noteq> []" by auto
    have never: "\<forall>results. fst (batchMessageClassificationWorkflow act order (Some requests))
                          \<noteq> Fulfilled results"
    proof (intro allI notI)
      fix results
      assume "fst (batchMessageClassificationWorkflow act order (Some requests)) = Fulfilled results"
      from ful [OF ne this] i have "act i (requests ! i) = Inr (results ! i)" by simp
      with f show False by simp
    qed
    have rej: "\<exists>e'. fst (batchMessageClassificationWorkflow act order (Some requests))
                             = Rejected e'
                           \<and> (\<exists>j < length requests. act j (requests ! j) = Inl e')"
      if o: "i \<in> set order"
    proof -
      have "i < length ?outcomes" "?outcomes ! i = Inl e" using i f nth by simp_all
      from Promise_all_rejects [OF this o] obtain e' j where
        "Promise_all order ?outcomes = Rejected e'" "j < length ?outcomes" "?outcomes ! j = Inl e'"
        by blast
      then have "fst (batchMessageClassificationWorkflow act order (Some requests)) = Rejected e'"
        "j < length requests" "act j (requests ! j) = Inl e'"
        using b [OF ne] nth by simp_all
      then show ?thesis by blast
    qed
    show "(\<forall>results. fst (batchMessageClassificationWorkflow act order (Some requests))
                          \<noteq> Fulfilled results)
            \<and> (i \<in> set order
                 \<longrightarrow> (\<exists>e'. fst (batchMessageClassificationWorkflow act order (Some requests))
                             = Rejected e'
                           \<and> (\<exists>j < length requests. act j (requests ! j) = Inl e')))"
      using never rej by blast
  qed
  show ?thesis by (intro conjI) (fact c1, fact c2, fact c3, fact c4)
qed

theorem batch_all_or_nothing_witness:
  "(1::nat) < length batch_requests
   \<and> activity_second_fails 1 (batch_requests ! 1)
       = Inl (ClassificationError ''Failed to classify message: timeout'' (batch_requests ! 1) None)
   \<and> (1::nat) \<in> set [2, 0, 1]
   \<and> fst (batchMessageClassificationWorkflow activity_second_fails [2, 0, 1] (Some batch_requests))
       = Rejected (ClassificationError ''Failed to classify message: timeout''
                     (batch_requests ! 1) None)
   \<and> batchMessageClassificationWorkflow activity_second_fails [2, 0, 1] (Some [])
       = (Rejected (Error ''Error'' ''Invalid request: at least one message is required''), [])"
proof -
  have h1: "(1::nat) < length batch_requests" by (simp add: batch_requests_def)
  have h2: "activity_second_fails 1 (batch_requests ! 1)
       = Inl (ClassificationError ''Failed to classify message: timeout'' (batch_requests ! 1) None)"
    by (simp add: activity_second_fails_def)
  have h3: "(1::nat) \<in> set [2, 0, 1]" by simp
  note th = batch_all_or_nothing
              [where act = activity_second_fails and order = "[2, 0, 1]"
                 and requests = batch_requests and i = 1
                 and e = "ClassificationError ''Failed to classify message: timeout''
                            (batch_requests ! 1) None"]
  from th [THEN conjunct2, THEN conjunct2, THEN conjunct2] h1 h2 h3
  obtain e' j where r:
    "fst (batchMessageClassificationWorkflow activity_second_fails [2, 0, 1] (Some batch_requests))
       = Rejected e'"
    "j < length batch_requests" "activity_second_fails j (batch_requests ! j) = Inl e'"
    by blast
  have "j = 1" using r(3) by (auto simp: activity_second_fails_def split: if_splits)
  then have "e' = ClassificationError ''Failed to classify message: timeout''
                     (batch_requests ! 1) None"
    using r(3) h2 by simp
  then show ?thesis
    using h1 h2 h3 r(1) th [THEN conjunct2, THEN conjunct1] by simp
qed

subsection \<open>Invariants of a returned result\<close>

text \<open>
  C7. Whenever the activity returns a result, the request had a non-empty message, the
  \<open>message\<close> field of the result is that message verbatim, and the \<open>confidence\<close> of
  the result, when present, lies between 0 and 1.
\<close>

theorem classifyMessage_result_invariants:
  assumes "fst (classifyMessage w llmProvider request) = Inr res"
  shows "MessageClassificationRequest.message request
           = Some (MessageClassificationResult.message res)
         \<and> MessageClassificationResult.message res \<noteq> []
         \<and> (\<forall>c. MessageClassificationResult.confidence res = Some c \<longrightarrow> 0 \<le> c \<and> c \<le> 1)"
proof -
  from classifyMessage_success [OF assms] obtain m d j where
    m: "MessageClassificationRequest.message request = Some m" "\<not> list_all is_js_space m"
    and d: "classificationSchema_parse j = Inr d" and res: "res = stamped_result w m d"
    by blast
  have "m \<noteq> []" using m(2) by auto
  moreover have "0 \<le> Classification.confidence d \<and> Classification.confidence d \<le> 1"
    using d by (rule classificationSchema_parse_bounds)
  ultimately show ?thesis using m(1) res by (simp add: stamped_result_def)
qed

theorem classifyMessage_result_invariants_witness:
  "fst (classifyMessage world_openai manager_openai request_hello)
     = Inr (stamped_result world_openai ''Hello, this is a nice and friendly message!'' embedded_data)
   \<and> MessageClassificationRequest.message request_hello
       = Some ''Hello, this is a nice and friendly message!''
   \<and> MessageClassificationResult.message
         (stamped_result world_openai ''Hello, this is a nice and friendly message!'' embedded_data)
       = ''Hello, this is a nice and friendly message!''
   \<and> MessageClassificationResult.confidence
         (stamped_result world_openai ''Hello, this is a nice and friendly message!'' embedded_data)
       = Some (9 / 10)
   \<and> (0::real) \<le> 9 / 10 \<and> (9 / 10 :: real) \<le> 1"
proof -
  have run: "fst (classifyMessage world_openai manager_openai request_hello)
     = Inr (stamped_result world_openai ''Hello, this is a nice and friendly message!'' embedded_data)"
    using openai_hello_run by simp
  show ?thesis
    using run classifyMessage_result_invariants [OF run]
    by (simp add: stamped_result_def embedded_data_def request_hello_def)
qed

subsection \<open>The retry policy\<close>

text \<open>
  C8. Under the options passed to \<open>proxyActivities\<close>, an activity is attempted at
  least once and at most 3 times; the waits between attempts are 1 second and then 2
  seconds, the wait after the k-th failure being 1 second times 2 to the power k - 1,
  capped at 30 seconds; when all 3 attempts fail, the outcome is the failure of the
  third attempt, unmodified; when attempts 1 and 2 fail and attempt 3 succeeds, the
  outcome is that success. The single-classification workflow ends with the outcome of
  the proxied activity, unmodified. (The engine is modelled from the specification; the
  options and the workflow are from the sources.)
\<close>

theorem retry_policy_three_attempts:
  "1 \<le> attempts (execute_activity activity_options f)
   \<and> attempts (execute_activity activity_options f) \<le> 3
   \<and> waits (execute_activity activity_options f)
       = take (attempts (execute_activity activity_options f) - 1) [1000, 2000]
   \<and> (\<forall>k. retry_interval (retry activity_options) (Suc k) = min (1000 * 2 ^ k) 30000)
   \<and> (\<forall>e1 e2 e3. f 1 = Inl e1 \<and> f 2 = Inl e2 \<and> f 3 = Inl e3
         \<longrightarrow> execute_activity activity_options f
               = \<lparr>outcome = Inl e3, attempts = 3, waits = [1000, 2000]\<rparr>)
   \<and> (\<forall>e1 e2 v. f 1 = Inl e1 \<and> f 2 = Inl e2 \<and> f 3 = Inr v
         \<longrightarrow> execute_activity activity_options f
               = \<lparr>outcome = Inr v, attempts = 3, waits = [1000, 2000]\<rparr>)
   \<and> (truthy (MessageClassificationRequest.message r)
         \<longrightarrow> fst (messageClassificationWorkflow
                    (\<lambda>q. outcome (execute_activity activity_options (g q))) (Some r))
               = outcome (execute_activity activity_options (g r)))"
proof -
  have run: "execute_activity activity_options f =
               (case f 1 of
                  Inr v \<Rightarrow> \<lparr>outcome = Inr v, attempts = 1, waits = []\<rparr>
                | Inl e1 \<Rightarrow>
                    (case f 2 of
                       Inr v \<Rightarrow> \<lparr>outcome = Inr v, attempts = 2, waits = [1000]\<rparr>
                     | Inl e2 \<Rightarrow> \<lparr>outcome = f 3, attempts = 3, waits = [1000, 2000]\<rparr>))"
    by (simp add: execute_activity_def activity_options_def numeral_2_eq_2 numeral_3_eq_3
                  retry_interval_def Let_def
             split: sum.splits)
  have c1: "1 \<le> attempts (execute_activity activity_options f)"
    unfolding run by (simp split: sum.splits)
  have c2: "attempts (execute_activity activity_options f) \<le> 3"
    unfolding run by (simp split: sum.splits)
  have c3: "waits (execute_activity activity_options f)
       = take (attempts (execute_activity activity_options f) - 1) [1000, 2000]"
    unfolding run by (simp split: sum.splits)
  have c4: "\<forall>k. retry_interval (retry activity_options) (Suc k) = min (1000 * 2 ^ k) 30000"
    by (simp add: retry_interval_def activity_options_def)
  have c5: "\<forall>e1 e2 e3. f 1 = Inl e1 \<and> f 2 = Inl e2 \<and> f 3 = Inl e3
         \<longrightarrow> execute_activity activity_options f
               = \<lparr>outcome = Inl e3, attempts = 3, waits = [1000, 2000]\<rparr>"
    unfolding run by simp
  have c6: "\<forall>e1 e2 v. f 1 = Inl e1 \<and> f 2 = Inl e2 \<and> f 3 = Inr v
         \<longrightarrow> execute_activity activity_options f
               = \<lparr>outcome = Inr v, attempts = 3, waits = [1000, 2000]\<rparr>"
    unfolding run by simp
  have c7: "truthy (MessageClassificationRequest.message r)
         \<longrightarrow> fst (messageClassificationWorkflow
                    (\<lambda>q. outcome (execute_activity activity_options (g q))) (Some r))
               = outcome (execute_activity activity_options (g r))"
    by (simp add: messageClassificationWorkflow_def try_catch_rethrow)
  show ?thesis
    by (intro conjI) (fact c1, fact c2, fact c3, fact c4, fact c5, fact c6, fact c7)
qed

theorem retry_policy_three_attempts_witness:
  "execute_activity activity_options transient_twice
     = \<lparr>outcome = Inr (answer_for 0 request_hello), attempts = 3, waits = [1000, 2000]\<rparr>
   \<and> execute_activity activity_options always_failing
       = \<lparr>outcome = Inl (Error ''Error'' ''attempt 3 failed''), attempts = 3,
          waits = [1000, 2000]\<rparr>
   \<and> truthy (MessageClassificationRequest.message request_hello)
   \<and> fst (messageClassificationWorkflow
            (\<lambda>q. outcome (execute_activity activity_options always_failing))
            (Some request_hello))
       = Inl (Error ''Error'' ''attempt 3 failed'')"
proof -
  have t: "truthy (MessageClassificationRequest.message request_hello)"
    by (simp add: request_hello_def truthy_def)
  have a: "transient_twice 1 = Inl (Error ''Error'' ''attempt 1 failed'')
           \<and> transient_twice 2 = Inl (Error ''Error'' ''attempt 2 failed'')
           \<and> transient_twice 3 = Inr (answer_for 0 request_hello)"
    by (simp add: transient_twice_def)
  have b: "always_failing 1 = Inl (Error ''Error'' ''attempt 1 failed'')
           \<and> always_failing 2 = Inl (Error ''Error'' ''attempt 2 failed'')
           \<and> always_failing 3 = Inl (Error ''Error'' ''attempt 3 failed'')"
    by (simp add: always_failing_def)
  note th1 = retry_policy_three_attempts [where f = transient_twice]
  note th2 = retry_policy_three_attempts
               [where f = always_failing and r = request_hello and g = "\<lambda>q. always_failing"]
  have r1: "execute_activity activity_options transient_twice
     = \<lparr>outcome = Inr (answer_for 0 request_hello), attempts = 3, waits = [1000, 2000]\<rparr>"
    using th1 a by blast
  have r2: "execute_activity activity_options always_failing
       = \<lparr>outcome = Inl (Error ''Error'' ''attempt 3 failed''), attempts = 3,
          waits = [1000, 2000]\<rparr>"
    using th2 b by blast
  have r3: "fst (messageClassificationWorkflow
            (\<lambda>q. outcome (execute_activity activity_options always_failing))
            (Some request_hello))
       = outcome (execute_activity activity_options always_failing)"
    using th2 t by blast
  show ?thesis using r1 r2 r3 t by simp
qed

subsection \<open>Workflow-level validation\<close>

text \<open>
  C9. A request whose message is a non-empty string of white space passes the
  synchronous check of the single-classification workflow and is dispatched to the
  activity: the workflow ends with whatever the proxied activity ends with. The activity
  is where the \<open>ClassificationError\<close> for such a message is raised. The workflow's
  own check rejects, without dispatching, exactly an absent request and an absent or
  empty message.
\<close>

theorem whitespace_message_is_dispatched:
  assumes "MessageClassificationRequest.message r = Some m"
      and "m \<noteq> []"
      and "\<forall>c \<in> set m. is_js_space c"
  shows "messageClassificationWorkflow act (Some r) = (act r, [r])
         \<and> classifyMessage w llmProvider r
             = (Inl (ClassificationError ''Message cannot be empty'' r None), [])
         \<and> ((snd (messageClassificationWorkflow act request) = [])
              = (request = None
                 \<or> (\<exists>q. request = Some q
                        \<and> (MessageClassificationRequest.message q = None
                             \<or> MessageClassificationRequest.message q = Some []))))"
proof -
  have t: "truthy (MessageClassificationRequest.message r)"
    using assms(1,2) by (simp add: truthy_def)
  have wf: "messageClassificationWorkflow act' (Some r) = (act' r, [r])" for act'
    using t by (simp add: messageClassificationWorkflow_def try_catch_rethrow)
  have blank: "list_all is_js_space m" using assms(3) by (simp add: list_all_iff)
  have act: "classifyMessage w' llmProvider r
             = (Inl (ClassificationError ''Message cannot be empty'' r None), [])" for w'
    using assms(1) blank by (rule classifyMessage_blank)
  have only: "(snd (messageClassificationWorkflow act request) = [])
              = (request = None
                 \<or> (\<exists>q. request = Some q
                        \<and> (MessageClassificationRequest.message q = None
                             \<or> MessageClassificationRequest.message q = Some [])))"
    by (cases request)
       (auto simp: messageClassificationWorkflow_def truthy_def split: option.splits)
  show ?thesis
    by (intro conjI) (fact wf, fact act, fact only)
qed

theorem whitespace_message_is_dispatched_witness:
  "MessageClassificationRequest.message request_blank = Some [CHR 0x20, CHR 0x09, CHR 0x0A]
   \<and> messageClassificationWorkflow
         (\<lambda>q. fst (classifyMessage world_openai manager_openai q)) (Some request_blank)
       = (Inl (ClassificationError ''Message cannot be empty'' request_blank None),
          [request_blank])
   \<and> classifyMessage world_openai manager_openai request_blank
       = (Inl (ClassificationError ''Message cannot be empty'' request_blank None), [])"
proof -
  have h1: "MessageClassificationRequest.message request_blank = Some [CHR 0x20, CHR 0x09, CHR 0x0A]"
    by (simp add: request_blank_def)
  have h2: "[CHR 0x20, CHR 0x09, CHR 0x0A] \<noteq> []" by simp
  have h3: "\<forall>c \<in> set [CHR 0x20, CHR 0x09, CHR 0x0A]. is_js_space c"
    by (simp add: is_js_space_def)
  note th = whitespace_message_is_dispatched
              [OF h1 h2 h3, where w = world_openai and llmProvider = manager_openai
                 and request = None
                 and act = "\<lambda>q. fst (classifyMessage world_openai manager_openai q)"]
  have a: "classifyMessage world_openai manager_openai request_blank
       = (Inl (ClassificationError ''Message cannot be empty'' request_blank None), [])"
    by (fact th [THEN conjunct2, THEN conjunct1])
  have w: "messageClassificationWorkflow
         (\<lambda>q. fst (classifyMessage world_openai manager_openai q)) (Some request_blank)
       = (Inl (ClassificationError ''Message cannot be empty'' request_blank None),
          [request_blank])"
    using th [THEN conjunct1] a by simp
  show ?thesis by (intro conjI) (fact h1, fact w, fact a)
qed

subsection \<open>Choice of the strategy\<close>

text \<open>
  C10, as amended. For a request with a message that is not blank: when the model
  handle does not resolve (the provider named by \<open>LLM_PROVIDER\<close>, or the default
  \<open>openai\<close>, is not registered), the activity fails with the \<open>LLMProviderError\<close> of
  \<open>getModel\<close> and makes no generation call; when it resolves, the activity makes
  exactly one call, the free-text call if \<open>LLM_PROVIDER\<close> equals \<open>lmstudio\<close> and the
  schema-constrained call for every other value, unset included. The provider and the
  model stamped into a result are the values derived from the environment, with the
  defaults \<open>openai\<close> and \<open>gpt-4o-mini\<close>.
\<close>

theorem strategy_follows_LLM_PROVIDER:
  assumes "MessageClassificationRequest.message request = Some m"
      and "\<not> list_all is_js_space m"
  shows "(\<forall>e. getModel llmProvider (process_env w) None = Inl e
            \<longrightarrow> classifyMessage w llmProvider request = (Inl e, [GetModel]))
         \<and> (\<forall>h. getModel llmProvider (process_env w) None = Inr h
              \<longrightarrow> snd (classifyMessage w llmProvider request)
                    = [GetModel,
                       ModelCall (if process_env w ''LLM_PROVIDER'' = Some ''lmstudio''
                                  then free_text_call h m else structured_call h m)])
         \<and> (\<forall>res. fst (classifyMessage w llmProvider request) = Inr res
              \<longrightarrow> MessageClassificationResult.provider res
                      = or_else (process_env w ''LLM_PROVIDER'') ''openai''
                  \<and> MessageClassificationResult.model res
                      = or_else (process_env w ''DEFAULT_MODEL'') ''gpt-4o-mini'')"
proof (intro conjI allI impI)
  fix e
  assume "getModel llmProvider (process_env w) None = Inl e"
  with assms show "classifyMessage w llmProvider request = (Inl e, [GetModel])"
    by (rule run_getModel_fails)
next
  fix h
  assume g: "getModel llmProvider (process_env w) None = Inr h"
  show "snd (classifyMessage w llmProvider request)
          = [GetModel,
             ModelCall (if process_env w ''LLM_PROVIDER'' = Some ''lmstudio''
                        then free_text_call h m else structured_call h m)]"
  proof (cases "process_env w ''LLM_PROVIDER'' = Some ''lmstudio''")
    case True
    then show ?thesis
      using body_free_text [OF assms g True] by (simp add: snd_classifyMessage)
  next
    case False
    then show ?thesis
      using body_structured [OF assms g False] by (simp add: snd_classifyMessage)
  qed
next
  fix res
  assume "fst (classifyMessage w llmProvider request) = Inr res"
  then obtain m' d where "res = stamped_result w m' d"
    using classifyMessage_success by blast
  then show "MessageClassificationResult.provider res
               = or_else (process_env w ''LLM_PROVIDER'') ''openai''"
    and "MessageClassificationResult.model res
               = or_else (process_env w ''DEFAULT_MODEL'') ''gpt-4o-mini''"
    by (simp_all add: stamped_result_def)
qed

theorem strategy_follows_LLM_PROVIDER_witness:
  "snd (classifyMessage world_openai manager_openai request_hello)
     = [GetModel, ModelCall (structured_call (LanguageModel (OpenAI ''sk-test'' None) ''gpt-4o-mini'')
                               ''Hello, this is a nice and friendly message!'')]
   \<and> process_env world_openai ''LLM_PROVIDER'' = None
   \<and> MessageClassificationResult.provider
         (stamped_result world_openai ''Hello, this is a nice and friendly message!'' embedded_data)
       = ''openai''
   \<and> MessageClassificationResult.model
         (stamped_result world_openai ''Hello, this is a nice and friendly message!'' embedded_data)
       = ''gpt-4o-mini''
   \<and> snd (classifyMessage (world_lmstudio ''I cannot classify this message.'')
             manager_lmstudio_only request_hello)
       = [GetModel, ModelCall (free_text_call handle_lmstudio
                                 ''Hello, this is a nice and friendly message!'')]
   \<and> process_env (world_lmstudio ''I cannot classify this message.'') ''LLM_PROVIDER''
       = Some ''lmstudio''"
proof -
  let ?w = "world_lmstudio ''I cannot classify this message.''"
  have g1: "getModel manager_openai (process_env world_openai) None
             = Inr (LanguageModel (OpenAI ''sk-test'' None) ''gpt-4o-mini'')"
    using getModel_openai by (simp add: world_openai_def)
  have p1: "process_env world_openai ''LLM_PROVIDER'' = None"
    by (simp add: world_openai_def env_openai_def)
  have run: "fst (classifyMessage world_openai manager_openai request_hello)
     = Inr (stamped_result world_openai ''Hello, this is a nice and friendly message!'' embedded_data)"
    using openai_hello_run by simp
  have g2: "getModel manager_lmstudio_only (process_env ?w) None = Inr handle_lmstudio"
    using getModel_lmstudio by (simp add: world_lmstudio_def)
  have p2: "process_env ?w ''LLM_PROVIDER'' = Some ''lmstudio''"
    by (simp add: world_lmstudio_def env_lmstudio_def)
  show ?thesis
    using strategy_follows_LLM_PROVIDER
            [OF request_hello_message hello_not_blank, of manager_openai world_openai]
          strategy_follows_LLM_PROVIDER
            [OF request_hello_message hello_not_blank, of manager_lmstudio_only ?w]
          g1 p1 run g2 p2
    by (simp add: or_else_def world_openai_def env_openai_def)
qed

text \<open>
  C10 as stated fails for a provider name that is not registered: with
  \<open>LLM_PROVIDER = anthropic\<close> and only the OpenAI provider registered, the value is
  not \<open>lmstudio\<close>, yet no generation call is made at all: \<open>getModel\<close> throws before
  the branch and the activity rethrows its \<open>LLMProviderError\<close>.
\<close>

theorem unregistered_provider_makes_no_call:
  "process_env world_unregistered ''LLM_PROVIDER'' = Some ''anthropic''
   \<and> getInstance (process_env world_unregistered) = Inr manager_openai
   \<and> classifyMessage world_unregistered manager_openai request_hello
       = (Inl (LLMProviderError ''Failed to get model gpt-4o-mini from provider anthropic''
                 ''anthropic''
                 (Some (Error ''AI_NoSuchProviderError'' ''No such provider: anthropic''))),
          [GetModel])"
proof -
  have p: "process_env world_unregistered ''LLM_PROVIDER'' = Some ''anthropic''"
    by (simp add: world_unregistered_def env_unregistered_def)
  have i: "getInstance (process_env world_unregistered) = Inr manager_openai"
    by (simp add: world_unregistered_def env_unregistered_def getInstance_def createRegistry_def
        truthy_def or_else_def manager_openai_def)
  have "getModel manager_openai env_unregistered None
          = Inl (LLMProviderError ''Failed to get model gpt-4o-mini from provider anthropic''
                 ''anthropic''
                 (Some (Error ''AI_NoSuchProviderError'' ''No such provider: anthropic'')))"
    by code_simp
  then have g: "getModel manager_openai (process_env world_unregistered) None
          = Inl (LLMProviderError ''Failed to get model gpt-4o-mini from provider anthropic''
                 ''anthropic''
                 (Some (Error ''AI_NoSuchProviderError'' ''No such provider: anthropic'')))"
    by (simp add: world_unregistered_def)
  show ?thesis
    using p i run_getModel_fails [OF request_hello_message hello_not_blank g] by simp
qed

end
